theory Spec2Isabelle
  imports Main "HOL-Library.Sublist"
begin

section \<open>JavaScript string primitives used by whatsapp-service.js\<close>

text \<open>
  A JavaScript string is modelled as a \<open>string\<close> (a list of characters). The service
  uses three string operations: \<open>String.prototype.replace\<close> with a string pattern,
  \<open>String.prototype.includes\<close>, and a template literal that appends a fixed suffix.

  \<open>s.replace(pat, rep)\<close> with a string pattern replaces the first occurrence of
  \<open>pat\<close> in \<open>s\<close> only (the leftmost one) and leaves the rest of \<open>s\<close> as it is. The
  replacement used by the service is the empty string, so the special replacement
  patterns introduced by a dollar sign never occur.
\<close>

fun js_replace :: "string \<Rightarrow> string \<Rightarrow> string \<Rightarrow> string" where
  "js_replace pat rep [] = (if pat = [] then rep else [])"
| "js_replace pat rep (c # cs) =
     (if prefix pat (c # cs) then rep @ drop (length pat) (c # cs)
      else c # js_replace pat rep cs)"

fun js_includes :: "string \<Rightarrow> string \<Rightarrow> bool" where
  "js_includes pat [] = (pat = [])"
| "js_includes pat (c # cs) = (prefix pat (c # cs) \<or> js_includes pat cs)"

definition isDigit :: "char \<Rightarrow> bool" where
  "isDigit c = (c \<in> set ''0123456789'')"

section \<open>Sender address handling (whatsapp-service.js, lines 71, 93 and 104)\<close>

definition channel_suffix :: string where
  "channel_suffix = ''@s.whatsapp.net''"

text \<open>
  Lines 71 and 93: \<open>message.key.remoteJid.replace('@s.whatsapp.net', '')\<close>, applied
  to a remoteJid that is a string.
\<close>

definition normalize_sender :: "string \<Rightarrow> string" where
  "normalize_sender remoteJid = js_replace channel_suffix [] remoteJid"

text \<open>
  Line 104: \<open>phoneNumber.includes('@') ? phoneNumber : `${phoneNumber}@s.whatsapp.net`\<close>.
\<close>

definition to_jid :: "string \<Rightarrow> string" where
  "to_jid phoneNumber =
     (if js_includes ''@'' phoneNumber then phoneNumber else phoneNumber @ channel_suffix)"

text \<open>
  A canonical phone number in the sense of the specification's Identity Normalizer:
  digit characters only, except possibly one leading plus sign.
\<close>

definition canonical_number :: "string \<Rightarrow> bool" where
  "canonical_number s =
     (case s of [] \<Rightarrow> True
      | c # cs \<Rightarrow> (isDigit c \<or> c = CHR ''+'') \<and> list_all isDigit cs)"

section \<open>Data model of the WhatsApp service\<close>

text \<open>
  A thrown JavaScript value. Everything the service or its collaborators throw is an
  \<open>Error\<close> object carrying a \<open>message\<close>: the service's own
  \<open>new Error('WhatsApp not connected')\<close>, the \<open>TypeError\<close> raised by reading a property of
  \<open>undefined\<close> or \<open>null\<close>, and the errors with which the promises of \<open>axios.post\<close> and
  \<open>sock.sendMessage\<close> reject.
\<close>

datatype exn = Error (error_message: string) | TypeError (error_message: string)

text \<open>
  The inbound message object, as far as the service reads it. A field that may be
  \<open>undefined\<close> or \<open>null\<close> in the object delivered by the transport is an \<open>option\<close>
  (\<open>None\<close> for both). \<open>key_id\<close> is \<open>message.key.id\<close>, \<open>ext_text\<close> is
  \<open>message.message.extendedTextMessage.text\<close> and \<open>message_body\<close> is
  \<open>message.message\<close>. The \<open>key\<close> object itself is always present: the upsert handler
  reads \<open>message.key.fromMe\<close> before anything else.
\<close>

record message_key =
  remoteJid :: "string option"
  fromMe :: "bool option"
  key_id :: "string option"

record extended_text_message =
  ext_text :: "string option"

record message_content =
  conversation :: "string option"
  extendedTextMessage :: "extended_text_message option"

record wa_message =
  key :: message_key
  message_body :: "message_content option"
  messageTimestamp :: "int option"

text \<open>The object literal posted to the backend (lines 78 to 83).\<close>

record payload =
  phone_number :: string
  message :: string
  message_id :: "string option"
  timestamp :: "int option"

text \<open>
  The backend's response, as far as the service reads it: \<open>response.data\<close> (\<open>None\<close>
  when the body is \<open>null\<close>) and its field \<open>reply\<close> (\<open>None\<close> when absent or \<open>null\<close>,
  a string otherwise, as the backend's interface has it).
\<close>

record response_data =
  reply :: "string option"

record response =
  data :: "response_data option"

text \<open>The object returned by \<open>sendMessage\<close> (lines 107 and 111).\<close>

record send_result =
  success :: bool
  error :: "string option"

text \<open>
  The calls the service makes to its collaborators, in the order it makes them:
  \<open>AxiosPost p\<close> is \<open>axios.post(FASTAPI_URL + '/api/whatsapp/message', p)\<close> and
  \<open>SockSend jid t\<close> is \<open>sock.sendMessage(jid, {text: t})\<close>. Console output is not
  recorded, and \<open>console.log\<close> and \<open>console.error\<close> do not throw.

  The collaborators live in an outside world of type \<open>'w\<close>, which every call may
  change. \<open>axios.post\<close> either rejects (\<open>Inl\<close>) or resolves with a response;
  \<open>sock.sendMessage\<close> either rejects (\<open>Some e\<close>) or resolves.
\<close>

datatype effect = AxiosPost payload | SockSend string string

type_synonym 'w axios_post = "payload \<Rightarrow> 'w \<Rightarrow> (exn + response) \<times> 'w"

record 'w socket =
  socket_sendMessage :: "string \<Rightarrow> string \<Rightarrow> 'w \<Rightarrow> exn option \<times> 'w"

text \<open>
  The module's global variables \<open>sock\<close> (line 13, \<open>None\<close> for \<open>null\<close>) and
  \<open>connectionStatus\<close> (line 15). A handler reads them when it calls \<open>sendMessage\<close>;
  the handlers modelled here never assign them.
\<close>

record 'w service_state =
  sock :: "'w socket option"
  connectionStatus :: string

text \<open>
  An asynchronous function run to completion: the value it resolves with or the
  error it rejects with, the calls it made, and the world it leaves behind.
\<close>

type_synonym ('a, 'w) run = "(exn + 'a) \<times> effect list \<times> 'w"

definition try_catch ::
  "('w \<Rightarrow> ('a, 'w) run) \<Rightarrow> (exn \<Rightarrow> 'w \<Rightarrow> ('a, 'w) run) \<Rightarrow> 'w \<Rightarrow> ('a, 'w) run" where
  "try_catch body handler w =
     (case body w of
        (Inr v, tr, w') \<Rightarrow> (Inr v, tr, w')
      | (Inl e, tr, w') \<Rightarrow>
          (case handler e w' of (r, tr', w'') \<Rightarrow> (r, tr @ tr', w'')))"

section \<open>sendMessage (lines 98 to 113)\<close>

definition sendMessage_try ::
  "'w service_state \<Rightarrow> string option \<Rightarrow> string \<Rightarrow> 'w \<Rightarrow> (send_result, 'w) run" where
  "sendMessage_try st phoneNumber text w =
     (case sock st of
        None \<Rightarrow> (Inl (Error ''WhatsApp not connected''), [], w)
      | Some s \<Rightarrow>
          if connectionStatus st \<noteq> ''connected''
          then (Inl (Error ''WhatsApp not connected''), [], w)
          else
            (case phoneNumber of
               None \<Rightarrow>
                 (Inl (TypeError ''Cannot read properties of undefined (reading includes)''),
                  [], w)
             | Some p \<Rightarrow>
                 (case socket_sendMessage s (to_jid p) text w of
                    (Some e, w') \<Rightarrow> (Inl e, [SockSend (to_jid p) text], w')
                  | (None, w') \<Rightarrow>
                      (Inr \<lparr>success = True, error = None\<rparr>,
                       [SockSend (to_jid p) text], w'))))"

definition sendMessage_catch :: "exn \<Rightarrow> 'w \<Rightarrow> (send_result, 'w) run" where
  "sendMessage_catch e w = (Inr \<lparr>success = False, error = Some (error_message e)\<rparr>, [], w)"

definition sendMessage ::
  "'w service_state \<Rightarrow> string option \<Rightarrow> string \<Rightarrow> 'w \<Rightarrow> (send_result, 'w) run" where
  "sendMessage st phoneNumber text = try_catch (sendMessage_try st phoneNumber text) sendMessage_catch"

section \<open>handleIncomingMessage (lines 69 to 96)\<close>

definition error_reply :: string where
  "error_reply = ''Sorry, I encountered an error processing your message. Please try again.''"

text \<open>
  Lines 72 and 73:
  \<open>message.message.conversation || message.message.extendedTextMessage?.text || ''\<close>.
  A string is truthy when it is not empty.
\<close>

definition truthy :: "string option \<Rightarrow> bool" where
  "truthy v = (case v of None \<Rightarrow> False | Some s \<Rightarrow> s \<noteq> [])"

definition js_or :: "string option \<Rightarrow> string option \<Rightarrow> string option" where
  "js_or a b = (if truthy a then a else b)"

definition messageText :: "message_content \<Rightarrow> string" where
  "messageText b =
     (let extended = (case extendedTextMessage b of None \<Rightarrow> None | Some x \<Rightarrow> ext_text x)
      in case js_or (js_or (conversation b) extended) (Some []) of
           Some s \<Rightarrow> s
         | None \<Rightarrow> [])"

definition handleIncomingMessage_try ::
  "'w axios_post \<Rightarrow> 'w service_state \<Rightarrow> wa_message \<Rightarrow> 'w \<Rightarrow> (unit, 'w) run" where
  "handleIncomingMessage_try axios_post st m w =
     (case remoteJid (key m) of
        None \<Rightarrow> (Inl (TypeError ''Cannot read properties of undefined (reading replace)''), [], w)
      | Some jid \<Rightarrow>
          let phoneNumber = normalize_sender jid in
          (case message_body m of
             None \<Rightarrow>
               (Inl (TypeError ''Cannot read properties of undefined (reading conversation)''),
                [], w)
           | Some b \<Rightarrow>
               let p = \<lparr>phone_number = phoneNumber, message = messageText b,
                        message_id = key_id (key m), timestamp = messageTimestamp m\<rparr> in
               (case axios_post p w of
                  (Inl e, w1) \<Rightarrow> (Inl e, [AxiosPost p], w1)
                | (Inr response, w1) \<Rightarrow>
                    (case data response of
                       None \<Rightarrow>
                         (Inl (TypeError ''Cannot read properties of null (reading reply)''),
                          [AxiosPost p], w1)
                     | Some d \<Rightarrow>
                         (case reply d of
                            None \<Rightarrow> (Inr (), [AxiosPost p], w1)
                          | Some r \<Rightarrow>
                              if \<not> truthy (Some r) then (Inr (), [AxiosPost p], w1)
                              else
                                (case sendMessage st (Some phoneNumber) r w1 of
                                   (Inl e, tr, w2) \<Rightarrow> (Inl e, AxiosPost p # tr, w2)
                                 | (Inr res, tr, w2) \<Rightarrow> (Inr (), AxiosPost p # tr, w2)))))))"

definition handleIncomingMessage_catch ::
  "'w service_state \<Rightarrow> wa_message \<Rightarrow> exn \<Rightarrow> 'w \<Rightarrow> (unit, 'w) run" where
  "handleIncomingMessage_catch st m e w =
     (case remoteJid (key m) of
        None \<Rightarrow> (Inl (TypeError ''Cannot read properties of undefined (reading replace)''), [], w)
      | Some jid \<Rightarrow>
          (case sendMessage st (Some (normalize_sender jid)) error_reply w of
             (Inl e', tr, w') \<Rightarrow> (Inl e', tr, w')
           | (Inr res, tr, w') \<Rightarrow> (Inr (), tr, w')))"

definition handleIncomingMessage ::
  "'w axios_post \<Rightarrow> 'w service_state \<Rightarrow> wa_message \<Rightarrow> 'w \<Rightarrow> (unit, 'w) run" where
  "handleIncomingMessage axios_post st m =
     try_catch (handleIncomingMessage_try axios_post st m) (handleIncomingMessage_catch st m)"

section \<open>The messages.upsert handler (lines 51 to 59)\<close>

text \<open>
  The \<open>for\<close> loop over the delivered batch. Each call of \<open>handleIncomingMessage\<close> is
  awaited, so an error it rejects with ends the loop and rejects the handler.
  \<open>!message.key.fromMe\<close> holds unless \<open>fromMe\<close> is \<open>true\<close>; \<open>message.message\<close> is truthy
  when it is an object.
\<close>

fun messages_loop ::
  "'w axios_post \<Rightarrow> 'w service_state \<Rightarrow> wa_message list \<Rightarrow> 'w \<Rightarrow> (unit, 'w) run" where
  "messages_loop axios_post st [] w = (Inr (), [], w)"
| "messages_loop axios_post st (m # ms) w =
     (if fromMe (key m) \<noteq> Some True \<and> message_body m \<noteq> None
      then
        (case handleIncomingMessage axios_post st m w of
           (Inl e, tr, w') \<Rightarrow> (Inl e, tr, w')
         | (Inr u, tr, w') \<Rightarrow>
             (case messages_loop axios_post st ms w' of
                (r, tr', w'') \<Rightarrow> (r, tr @ tr', w'')))
      else messages_loop axios_post st ms w)"

definition messages_upsert ::
  "'w axios_post \<Rightarrow> 'w service_state \<Rightarrow> wa_message list \<Rightarrow> string \<Rightarrow> 'w \<Rightarrow> (unit, 'w) run" where
  "messages_upsert axios_post st messages type w =
     (if type = ''notify'' then messages_loop axios_post st messages w else (Inr (), [], w))"

section \<open>Observations on a run\<close>

definition outcome :: "('a, 'w) run \<Rightarrow> exn + 'a" where
  "outcome r = fst r"

definition calls :: "('a, 'w) run \<Rightarrow> effect list" where
  "calls r = fst (snd r)"

fun posts :: "effect list \<Rightarrow> payload list" where
  "posts [] = []"
| "posts (AxiosPost p # es) = p # posts es"
| "posts (SockSend j t # es) = posts es"

fun sock_sends :: "effect list \<Rightarrow> (string \<times> string) list" where
  "sock_sends [] = []"
| "sock_sends (AxiosPost p # es) = sock_sends es"
| "sock_sends (SockSend j t # es) = (j, t) # sock_sends es"

definition connected :: "'w service_state \<Rightarrow> bool" where
  "connected st = (sock st \<noteq> None \<and> connectionStatus st = ''connected'')"

section \<open>Example environments and messages\<close>

text \<open>
  Concrete collaborators over a world without state, and a concrete text message,
  used to evaluate the handlers.
\<close>

definition backend_down :: "unit axios_post" where
  "backend_down p w = (Inl (Error ''connect ECONNREFUSED''), w)"

definition backend_replies :: "string option \<Rightarrow> unit axios_post" where
  "backend_replies r p w = (Inr \<lparr>data = Some \<lparr>reply = r\<rparr>\<rparr>, w)"

definition socket_ok :: "unit socket" where
  "socket_ok = \<lparr>socket_sendMessage = (\<lambda>jid t w. (None, w))\<rparr>"

definition socket_failing :: "unit socket" where
  "socket_failing = \<lparr>socket_sendMessage = (\<lambda>jid t w. (Some (Error ''Connection Closed''), w))\<rparr>"

definition online :: "unit socket \<Rightarrow> unit service_state" where
  "online s = \<lparr>sock = Some s, connectionStatus = ''connected''\<rparr>"

definition offline :: "unit service_state" where
  "offline = \<lparr>sock = None, connectionStatus = ''disconnected''\<rparr>"

definition text_message :: "string option \<Rightarrow> string \<Rightarrow> wa_message" where
  "text_message jid t =
     \<lparr>key = \<lparr>remoteJid = jid, fromMe = Some False, key_id = Some ''3EB0A1''\<rparr>,
      message_body = Some \<lparr>conversation = Some t, extendedTextMessage = None\<rparr>,
      messageTimestamp = Some 1700000000\<rparr>"

section \<open>The loyalty engine\<close>

text \<open>
  The command-processing backend (the FastAPI service that keeps the customer records)
  is not among the source files; the definitions of this section follow sections 3, 4.3
  and 4.4 of the specification.
\<close>

text \<open>
  Modelled from the spec: the Customer record of section 3 (the backend's customer
  document is missing). \<open>customer_phone\<close> is the field \<open>phone_number\<close>.
\<close>

record customer =
  customer_id :: string
  customer_phone :: string
  name :: string
  stamps :: int
  rewards :: int
  last_stamp_at :: "int option"
  created_at :: int

text \<open>
  Modelled from the spec: the Customer Store of section 6 (the backend's database access
  is missing), a keyed collection indexed by phone number with a second lookup by
  customer id.
\<close>

definition store_get :: "customer list \<Rightarrow> string \<Rightarrow> customer option" where
  "store_get store phone = find (\<lambda>c. customer_phone c = phone) store"

text \<open>
  Modelled from the spec: the store's second lookup \<open>getById\<close> of section 6 (missing
  from the sources).
\<close>

definition store_getById :: "customer list \<Rightarrow> string \<Rightarrow> customer option" where
  "store_getById store cid = find (\<lambda>c. customer_id c = cid) store"

text \<open>
  Modelled from the spec: the store's \<open>upsert\<close> of section 6 (missing from the
  sources): the record with the same phone number is replaced, a new one is added.
\<close>

fun upsert :: "customer \<Rightarrow> customer list \<Rightarrow> customer list" where
  "upsert c [] = [c]"
| "upsert c (x # xs) =
     (if customer_phone x = customer_phone c then c # xs else x # upsert c xs)"

text \<open>
  Modelled from the spec: the tagged command value of section 4.2 (the backend's command
  parser is missing).
\<close>

datatype command =
    JOIN | STATUS | REWARD | UPDATE_NAME string | HELP
  | STAMP string | REDEEM string | UNKNOWN string

text \<open>
  Modelled from the spec: the failure kinds of sections 4.3, 4.4 and 7 (the backend's
  engine is missing).
\<close>

datatype failure =
    CUSTOMER_NOT_FOUND | NOT_STAFF | DUPLICATE_STAMP | ALREADY_MAXED | NO_REWARD_AVAILABLE

text \<open>
  Modelled from the spec: what the engine hands to the Reply Composer, one result for
  each effect and failure of the table of section 4.4 (missing from the sources).
\<close>

datatype engine_result =
    Joined customer | CurrentStatus customer | JoinFirst
  | RewardClaimed customer | Shortfall int | NameUpdated customer
  | Stamped customer | Redeemed customer
  | Failed failure | HelpText | Unrecognised string

text \<open>
  Modelled from the spec: the cooldown window of section 3, five minutes, with
  timestamps counted in seconds (the backend's constant is missing).
\<close>

definition cooldown :: int where
  "cooldown = 300"

text \<open>
  Modelled from the spec: the Authorization Gate of section 4.3 (missing from the
  sources): \<open>STAMP\<close> and \<open>REDEEM\<close> require the sender to be in the staff allow-list,
  every other command is allowed for any sender.
\<close>

fun authorize :: "string list \<Rightarrow> string \<Rightarrow> command \<Rightarrow> failure option" where
  "authorize staff sender (STAMP cid) = (if sender \<in> set staff then None else Some NOT_STAFF)"
| "authorize staff sender (REDEEM cid) = (if sender \<in> set staff then None else Some NOT_STAFF)"
| "authorize staff sender cmd = None"

text \<open>
  Modelled from the spec: the transitions of the Loyalty Engine, one equation per row
  of the table of section 4.4 (the backend's engine is missing). \<open>now\<close> is the time of
  the message and \<open>new_id\<close> the customer id handed out if a customer is created.
\<close>

fun transition ::
  "int \<Rightarrow> string \<Rightarrow> string \<Rightarrow> command \<Rightarrow> customer list \<Rightarrow> engine_result \<times> customer list" where
  "transition now new_id sender JOIN store =
     (case store_get store sender of
        Some c \<Rightarrow> (CurrentStatus c, store)
      | None \<Rightarrow>
          let c = \<lparr>customer_id = new_id, customer_phone = sender, name = [],
                   stamps = 1, rewards = 0, last_stamp_at = None, created_at = now\<rparr>
          in (Joined c, upsert c store))"
| "transition now new_id sender STATUS store =
     (case store_get store sender of
        Some c \<Rightarrow> (CurrentStatus c, store)
      | None \<Rightarrow> (JoinFirst, store))"
| "transition now new_id sender REWARD store =
     (case store_get store sender of
        None \<Rightarrow> (JoinFirst, store)
      | Some c \<Rightarrow>
          if stamps c = 10
          then let c' = c\<lparr>rewards := rewards c + 1\<rparr> in (RewardClaimed c', upsert c' store)
          else (Shortfall (10 - stamps c), store))"
| "transition now new_id sender (UPDATE_NAME n) store =
     (case store_get store sender of
        None \<Rightarrow> (JoinFirst, store)
      | Some c \<Rightarrow> let c' = c\<lparr>name := n\<rparr> in (NameUpdated c', upsert c' store))"
| "transition now new_id sender HELP store = (HelpText, store)"
| "transition now new_id sender (STAMP cid) store =
     (case store_getById store cid of
        None \<Rightarrow> (Failed CUSTOMER_NOT_FOUND, store)
      | Some c \<Rightarrow>
          if (case last_stamp_at c of None \<Rightarrow> False | Some t \<Rightarrow> now - t < cooldown)
          then (Failed DUPLICATE_STAMP, store)
          else if \<not> stamps c < 10 then (Failed ALREADY_MAXED, store)
          else
            let c' = c\<lparr>stamps := stamps c + 1, last_stamp_at := Some now\<rparr>
            in (Stamped c', upsert c' store))"
| "transition now new_id sender (REDEEM cid) store =
     (case store_getById store cid of
        None \<Rightarrow> (Failed CUSTOMER_NOT_FOUND, store)
      | Some c \<Rightarrow>
          if 1 \<le> rewards c
          then let c' = c\<lparr>rewards := rewards c - 1, stamps := 0\<rparr> in (Redeemed c', upsert c' store)
          else (Failed NO_REWARD_AVAILABLE, store))"
| "transition now new_id sender (UNKNOWN t) store = (Unrecognised t, store)"

text \<open>
  Modelled from the spec: one dispatched message (section 4.7, missing from the
  sources), with the sender, the parsed command, the time, the id for a new customer
  and the staff allow-list, which is read anew for every message.
\<close>

record operation =
  op_sender :: string
  op_command :: command
  op_now :: int
  op_new_id :: string
  op_staff :: "string list"

text \<open>
  Modelled from the spec: the dispatcher's order of section 4.7 (missing from the
  sources): authorization first, then the engine; a denied command leaves the store
  as it is.
\<close>

definition apply_operation :: "operation \<Rightarrow> customer list \<Rightarrow> engine_result \<times> customer list" where
  "apply_operation op store =
     (case authorize (op_staff op) (op_sender op) (op_command op) of
        Some reason \<Rightarrow> (Failed reason, store)
      | None \<Rightarrow> transition (op_now op) (op_new_id op) (op_sender op) (op_command op) store)"

text \<open>
  Modelled from the spec: a sequence of messages handled one after the other on the
  same store (sections 4.7 and 8; the backend's message endpoint is missing).
\<close>

fun run_operations :: "operation list \<Rightarrow> customer list \<Rightarrow> customer list" where
  "run_operations [] store = store"
| "run_operations (op # ops) store = run_operations ops (snd (apply_operation op store))"

text \<open>
  Modelled from the spec: the invariant of sections 3 and 8 on one customer record.
\<close>

definition customer_inv :: "customer \<Rightarrow> bool" where
  "customer_inv c = (0 \<le> stamps c \<and> stamps c \<le> 10 \<and> 0 \<le> rewards c)"

text \<open>
  Modelled from the spec: the invariant of sections 3 and 8 on every record of a store.
\<close>

definition store_inv :: "customer list \<Rightarrow> bool" where
  "store_inv store = list_all customer_inv store"

section \<open>Properties of the string primitives\<close>

lemma js_includes_at: "js_includes ''@'' s = (CHR ''@'' \<in> set s)"
  by (induction s) auto

lemma at_not_digit: "\<not> isDigit (CHR ''@'')"
  by (simp add: isDigit_def)

lemma digits_no_at: "\<forall>c\<in>set d. isDigit c \<Longrightarrow> CHR ''@'' \<notin> set d"
  using at_not_digit by blast

lemma normalize_sender_Nil: "normalize_sender [] = []"
  by (simp add: normalize_sender_def channel_suffix_def)

lemma suffix_needs_at: "c \<noteq> CHR ''@'' \<Longrightarrow> \<not> prefix channel_suffix (c # cs)"
  by (simp add: channel_suffix_def)

lemma normalize_sender_skip:
  "\<not> prefix channel_suffix (c # cs) \<Longrightarrow> normalize_sender (c # cs) = c # normalize_sender cs"
  by (simp add: normalize_sender_def)

lemma normalize_sender_hit:
  "prefix channel_suffix (c # cs) \<Longrightarrow>
   normalize_sender (c # cs) = drop (length channel_suffix) (c # cs)"
  by (simp add: normalize_sender_def)

lemma normalize_sender_no_at: "CHR ''@'' \<notin> set s \<Longrightarrow> normalize_sender s = s"
proof (induction s)
  case Nil
  show ?case by (rule normalize_sender_Nil)
next
  case (Cons c cs)
  from Cons.prems have "c \<noteq> CHR ''@''" by auto
  then have "\<not> prefix channel_suffix (c # cs)" by (rule suffix_needs_at)
  then have "normalize_sender (c # cs) = c # normalize_sender cs"
    by (rule normalize_sender_skip)
  moreover from Cons have "normalize_sender cs = cs" by simp
  ultimately show ?case by simp
qed

lemma normalize_sender_strips_suffix:
  assumes "CHR ''@'' \<notin> set p"
  shows "normalize_sender (p @ channel_suffix @ r) = p @ r"
  using assms
proof (induction p)
  case Nil
  show ?case by (simp add: normalize_sender_def channel_suffix_def)
next
  case (Cons c p)
  from Cons.prems have "c \<noteq> CHR ''@''" by auto
  then have "\<not> prefix channel_suffix (c # p @ channel_suffix @ r)" by (rule suffix_needs_at)
  then have "normalize_sender (c # p @ channel_suffix @ r) = c # normalize_sender (p @ channel_suffix @ r)"
    by (rule normalize_sender_skip)
  moreover from Cons have "normalize_sender (p @ channel_suffix @ r) = p @ r" by simp
  ultimately show ?case by simp
qed

lemma normalize_sender_unchanged:
  "\<not> js_includes channel_suffix x \<Longrightarrow> normalize_sender x = x"
proof (induction x)
  case Nil
  show ?case by (rule normalize_sender_Nil)
next
  case (Cons c cs)
  from Cons.prems have np: "\<not> prefix channel_suffix (c # cs)" and "\<not> js_includes channel_suffix cs"
    by simp_all
  with Cons.IH have "normalize_sender cs = cs" by simp
  with normalize_sender_skip [OF np] show ?case by simp
qed

lemma at_in_suffix: "prefix channel_suffix s \<Longrightarrow> CHR ''@'' \<in> set s"
  by (auto simp: prefix_def channel_suffix_def)

section \<open>The sender address normalization\<close>

lemma canonical_no_at: "canonical_number p \<Longrightarrow> CHR ''@'' \<notin> set p"
proof (cases p)
  case Nil
  then show ?thesis by simp
next
  case (Cons c cs)
  assume "canonical_number p"
  with Cons have c: "isDigit c \<or> c = CHR ''+''" and cs: "\<forall>d\<in>set cs. isDigit d"
    by (simp_all add: canonical_number_def list_all_iff)
  from c at_not_digit have "c \<noteq> CHR ''@''" by auto
  moreover from cs have "CHR ''@'' \<notin> set cs" by (rule digits_no_at)
  ultimately show ?thesis using Cons by simp
qed

text \<open>
  Claim C4, as the code has it: the normalization strips the first occurrence of the
  channel suffix only, so it is idempotent on every address with at most one \<open>@\<close>
  character (every WhatsApp address has exactly one): normalizing such an address a
  second time changes nothing.
\<close>

theorem normalize_sender_idempotent_one_at:
  "count_list x (CHR ''@'') \<le> 1 \<Longrightarrow> normalize_sender (normalize_sender x) = normalize_sender x"
proof (induction x)
  case Nil
  show ?case by (simp add: normalize_sender_Nil)
next
  case (Cons c cs)
  show ?case
  proof (cases "prefix channel_suffix (c # cs)")
    case True
    then have c: "c = CHR ''@''" by (simp add: channel_suffix_def)
    with Cons.prems have "count_list cs (CHR ''@'') = 0" by simp
    then have "CHR ''@'' \<notin> set cs" by (simp add: count_list_0_iff)
    then have "CHR ''@'' \<notin> set (drop (length channel_suffix) (c # cs))"
      by (auto simp: channel_suffix_def dest: in_set_dropD)
    then have "normalize_sender (drop (length channel_suffix) (c # cs)) = drop (length channel_suffix) (c # cs)"
      by (rule normalize_sender_no_at)
    with normalize_sender_hit [OF True] show ?thesis by simp
  next
    case False
    then have step: "normalize_sender (c # cs) = c # normalize_sender cs"
      by (rule normalize_sender_skip)
    show ?thesis
    proof (cases "c = CHR ''@''")
      case True
      with Cons.prems have "count_list cs (CHR ''@'') = 0" by simp
      then have "CHR ''@'' \<notin> set cs" by (simp add: count_list_0_iff)
      then have "normalize_sender cs = cs" by (rule normalize_sender_no_at)
      with step show ?thesis by simp
    next
      case False
      then have "\<not> prefix channel_suffix (c # normalize_sender cs)" by (rule suffix_needs_at)
      then have "normalize_sender (c # normalize_sender cs) = c # normalize_sender (normalize_sender cs)"
        by (rule normalize_sender_skip)
      moreover from False Cons.prems have "count_list cs (CHR ''@'') \<le> 1" by simp
      then have "normalize_sender (normalize_sender cs) = normalize_sender cs" by (rule Cons.IH)
      ultimately show ?thesis using step by simp
    qed
  qed
qed

text \<open>
  Claim C4, as the code has it, at the address \<open>15551234567@s.whatsapp.net\<close>.
\<close>

theorem normalize_sender_idempotent_one_at_witness:
  "count_list ''15551234567@s.whatsapp.net'' (CHR ''@'') \<le> 1
   \<and> normalize_sender (normalize_sender ''15551234567@s.whatsapp.net'') = ''15551234567''
   \<and> normalize_sender ''15551234567@s.whatsapp.net'' = ''15551234567''"
proof -
  have h: "count_list ''15551234567@s.whatsapp.net'' (CHR ''@'') \<le> 1" by simp
  have v: "normalize_sender ''15551234567@s.whatsapp.net'' = ''15551234567''"
    by (simp add: normalize_sender_def channel_suffix_def)
  from normalize_sender_idempotent_one_at [OF h] h v show ?thesis by simp
qed

text \<open>
  Claim C4 as stated (idempotence for every string) fails: with the suffix twice, the
  first normalization removes one occurrence and the second removes the other.
\<close>

theorem normalize_sender_not_idempotent:
  "normalize_sender (normalize_sender ''1@s.whatsapp.net@s.whatsapp.net'')
     \<noteq> normalize_sender ''1@s.whatsapp.net@s.whatsapp.net''"
  by (simp add: normalize_sender_def channel_suffix_def)

text \<open>
  Claim C5 as stated (only digits in the output for every raw address) fails: the
  address of status broadcasts has no channel suffix and comes back unchanged, with
  its letters and its \<open>@\<close>.
\<close>

theorem normalize_sender_keeps_non_digits:
  "normalize_sender ''status@broadcast'' = ''status@broadcast''
   \<and> \<not> canonical_number (normalize_sender ''status@broadcast'')"
  by (simp add: normalize_sender_def channel_suffix_def canonical_number_def isDigit_def)

lemma normalize_sender_first_occurrence:
  "js_includes channel_suffix y \<Longrightarrow>
   \<exists>before after. y = before @ channel_suffix @ after
     \<and> normalize_sender y = before @ after
     \<and> (\<forall>b a. y = b @ channel_suffix @ a \<longrightarrow> length before \<le> length b)"
proof (induction y)
  case Nil
  then show ?case by (simp add: channel_suffix_def)
next
  case (Cons c cs)
  show ?case
  proof (cases "prefix channel_suffix (c # cs)")
    case True
    then obtain after where a: "c # cs = channel_suffix @ after"
      by (auto simp: prefix_def)
    from normalize_sender_hit [OF True] a have "normalize_sender (c # cs) = after" by simp
    with a have "c # cs = [] @ channel_suffix @ after
      \<and> normalize_sender (c # cs) = [] @ after
      \<and> (\<forall>b a. c # cs = b @ channel_suffix @ a \<longrightarrow> length ([] :: string) \<le> length b)"
      by simp
    then show ?thesis by blast
  next
    case False
    with Cons.prems have "js_includes channel_suffix cs" by simp
    from Cons.IH [OF this] obtain before after where
      d: "cs = before @ channel_suffix @ after"
      and n: "normalize_sender cs = before @ after"
      and least: "\<forall>b a. cs = b @ channel_suffix @ a \<longrightarrow> length before \<le> length b"
      by blast
    from normalize_sender_skip [OF False] n
    have n': "normalize_sender (c # cs) = (c # before) @ after" by simp
    have least': "length (c # before) \<le> length b" if "c # cs = b @ channel_suffix @ a" for b a
    proof (cases b)
      case Nil
      with that have "prefix channel_suffix (c # cs)" by simp
      with False show ?thesis by simp
    next
      case (Cons c' b')
      with that have "cs = b' @ channel_suffix @ a" by simp
      with least have "length before \<le> length b'" by blast
      with Cons show ?thesis by simp
    qed
    from d have "c # cs = (c # before) @ channel_suffix @ after" by simp
    with n' least' show ?thesis by blast
  qed
qed

text \<open>
  Claim C5, as the code has it: for a raw address made of a canonical number (digits,
  possibly after one leading plus sign) followed by the channel suffix, the output is
  exactly that number, so it contains only digits except possibly the leading plus
  sign. Nothing but the channel suffix is stripped, for every address: one that does
  not contain the suffix is returned unchanged, and one that contains it loses its
  first occurrence of the suffix and keeps every other character, in place, whether
  digit or not; in particular whatever stands before the suffix and has no \<open>@\<close>,
  and whatever follows the suffix, comes back as it is.
\<close>

theorem normalize_sender_strips_only_suffix:
  "(canonical_number p \<longrightarrow>
      normalize_sender (p @ channel_suffix) = p
      \<and> canonical_number (normalize_sender (p @ channel_suffix)))
   \<and> (\<not> js_includes channel_suffix x \<longrightarrow> normalize_sender x = x)
   \<and> (js_includes channel_suffix y \<longrightarrow>
        (\<exists>before after. y = before @ channel_suffix @ after
           \<and> normalize_sender y = before @ after
           \<and> (\<forall>b a. y = b @ channel_suffix @ a \<longrightarrow> length before \<le> length b)))
   \<and> (CHR ''@'' \<notin> set q \<longrightarrow> normalize_sender (q @ channel_suffix @ r) = q @ r)"
proof (intro conjI impI)
  assume p: "canonical_number p"
  then have "CHR ''@'' \<notin> set p" by (rule canonical_no_at)
  from normalize_sender_strips_suffix [OF this, of "[]"]
  show eq: "normalize_sender (p @ channel_suffix) = p" by simp
  from p eq show "canonical_number (normalize_sender (p @ channel_suffix))" by simp
next
  assume "\<not> js_includes channel_suffix x"
  then show "normalize_sender x = x" by (rule normalize_sender_unchanged)
next
  assume "js_includes channel_suffix y"
  then show "\<exists>before after. y = before @ channel_suffix @ after
           \<and> normalize_sender y = before @ after
           \<and> (\<forall>b a. y = b @ channel_suffix @ a \<longrightarrow> length before \<le> length b)"
    by (rule normalize_sender_first_occurrence)
next
  assume "CHR ''@'' \<notin> set q"
  then show "normalize_sender (q @ channel_suffix @ r) = q @ r"
    by (rule normalize_sender_strips_suffix)
qed

text \<open>
  Claim C5, as the code has it, at a canonical number with the suffix, at a group
  address without it, and at an address with a device part before the suffix, whose
  colon is kept.
\<close>

theorem normalize_sender_strips_only_suffix_witness:
  "canonical_number ''+15551234567''
   \<and> normalize_sender (''+15551234567'' @ channel_suffix) = ''+15551234567''
   \<and> \<not> js_includes channel_suffix ''12025550123-1600000000@g.us''
   \<and> normalize_sender ''12025550123-1600000000@g.us'' = ''12025550123-1600000000@g.us''
   \<and> js_includes channel_suffix ''15551234567:12@s.whatsapp.net''
   \<and> CHR ''@'' \<notin> set ''15551234567:12''
   \<and> normalize_sender ''15551234567:12@s.whatsapp.net'' = ''15551234567:12''"
proof -
  have h1: "canonical_number ''+15551234567''"
    by (simp add: canonical_number_def isDigit_def)
  have h2: "\<not> js_includes channel_suffix ''12025550123-1600000000@g.us''"
    by (simp add: channel_suffix_def)
  have h3: "js_includes channel_suffix ''15551234567:12@s.whatsapp.net''"
    by (simp add: channel_suffix_def)
  have h4: "CHR ''@'' \<notin> set ''15551234567:12''" by simp
  from normalize_sender_strips_only_suffix
    [where p = "''+15551234567''" and x = "''12025550123-1600000000@g.us''"
       and y = "''15551234567:12@s.whatsapp.net''" and q = "''15551234567:12''" and r = "[]"]
    h1 h2 h4
  have "normalize_sender (''+15551234567'' @ channel_suffix) = ''+15551234567''"
    and "normalize_sender ''12025550123-1600000000@g.us'' = ''12025550123-1600000000@g.us''"
    and "normalize_sender (''15551234567:12'' @ channel_suffix @ []) = ''15551234567:12'' @ []"
    by blast+
  with h1 h2 h3 h4 show ?thesis by (simp add: channel_suffix_def)
qed

lemma to_jid_normalize_sender:
  assumes "CHR ''@'' \<notin> set number"
  shows "to_jid (normalize_sender (number @ channel_suffix)) = number @ channel_suffix"
proof -
  from normalize_sender_strips_suffix [OF assms, of "[]"]
  have "normalize_sender (number @ channel_suffix) = number" by simp
  with assms show ?thesis by (simp add: to_jid_def js_includes_at)
qed

section \<open>Properties of sendMessage\<close>

lemma sendMessage_offline:
  "\<not> connected st \<Longrightarrow>
   sendMessage st phoneNumber text w =
     (Inr \<lparr>success = False, error = Some ''WhatsApp not connected''\<rparr>, [], w)"
  by (auto simp: connected_def sendMessage_def try_catch_def sendMessage_try_def
      sendMessage_catch_def split: option.splits)

lemma sendMessage_online:
  "sock st = Some s \<Longrightarrow> connectionStatus st = ''connected'' \<Longrightarrow>
   sendMessage st (Some p) text w =
     (case socket_sendMessage s (to_jid p) text w of
        (None, w') \<Rightarrow> (Inr \<lparr>success = True, error = None\<rparr>, [SockSend (to_jid p) text], w')
      | (Some e, w') \<Rightarrow>
          (Inr \<lparr>success = False, error = Some (error_message e)\<rparr>,
           [SockSend (to_jid p) text], w'))"
  by (simp add: sendMessage_def try_catch_def sendMessage_try_def
      sendMessage_catch_def split: option.splits prod.splits)

lemma sendMessage_returns: "\<exists>r. outcome (sendMessage st phoneNumber text w) = Inr r"
  by (simp add: outcome_def sendMessage_def try_catch_def sendMessage_try_def
      sendMessage_catch_def split: option.splits prod.splits)

lemma sendMessage_cases:
  obtains r w' where "sendMessage st (Some p) t w =
     (Inr r, if connected st then [SockSend (to_jid p) t] else [], w')"
proof (cases "connected st")
  case False
  with sendMessage_offline [OF False] that show ?thesis by simp
next
  case True
  then obtain s where s: "sock st = Some s" and c: "connectionStatus st = ''connected''"
    by (auto simp: connected_def)
  obtain x w' where x: "socket_sendMessage s (to_jid p) t w = (x, w')"
    by (cases "socket_sendMessage s (to_jid p) t w")
  show ?thesis
  proof (cases x)
    case None
    with sendMessage_online [OF s c, of p t w] x True that show ?thesis by simp
  next
    case (Some e)
    with sendMessage_online [OF s c, of p t w] x True that show ?thesis by simp
  qed
qed

text \<open>
  Claim C9: \<open>sendMessage\<close> never rejects: for every phone number (also a missing one)
  and every text it resolves with a result object, whose \<open>success\<close> field is a
  boolean. When the socket is absent or the connection status is not \<open>connected\<close>,
  the result is \<open>success: false\<close> with the error \<open>WhatsApp not connected\<close>, nothing is
  handed to the socket and the world is left as it was.
\<close>

theorem sendMessage_never_raises:
  "(\<exists>r. outcome (sendMessage st phoneNumber text w) = Inr r)
   \<and> (sock st = None \<or> connectionStatus st \<noteq> ''connected'' \<longrightarrow>
        sendMessage st phoneNumber text w =
          (Inr \<lparr>success = False, error = Some ''WhatsApp not connected''\<rparr>, [], w))"
proof
  show "\<exists>r. outcome (sendMessage st phoneNumber text w) = Inr r"
    by (rule sendMessage_returns)
next
  show "sock st = None \<or> connectionStatus st \<noteq> ''connected'' \<longrightarrow>
        sendMessage st phoneNumber text w =
          (Inr \<lparr>success = False, error = Some ''WhatsApp not connected''\<rparr>, [], w)"
  proof
    assume "sock st = None \<or> connectionStatus st \<noteq> ''connected''"
    then have "\<not> connected st" by (auto simp: connected_def)
    then show "sendMessage st phoneNumber text w =
          (Inr \<lparr>success = False, error = Some ''WhatsApp not connected''\<rparr>, [], w)"
      by (rule sendMessage_offline)
  qed
qed

text \<open>
  Claim C9 in the disconnected state.
\<close>

theorem sendMessage_never_raises_witness:
  "sock offline = None
   \<and> sendMessage offline (Some ''15551234567'') ''Hello'' () =
       (Inr \<lparr>success = False, error = Some ''WhatsApp not connected''\<rparr>, [], ())"
proof -
  have h: "sock offline = None" by (simp add: offline_def)
  with sendMessage_never_raises [of offline "Some ''15551234567''" "''Hello''" "()"]
  show ?thesis by simp
qed

section \<open>Properties of handleIncomingMessage\<close>

lemma handle_after_throw:
  assumes jid: "remoteJid (key m) = Some jid"
    and body: "handleIncomingMessage_try axios_post st m w = (Inl e, tr, w1)"
  shows "\<exists>w2. handleIncomingMessage axios_post st m w =
           (Inr (), tr @ (if connected st
                          then [SockSend (to_jid (normalize_sender jid)) error_reply] else []), w2)"
proof -
  obtain r w2 where "sendMessage st (Some (normalize_sender jid)) error_reply w1 =
      (Inr r, if connected st then [SockSend (to_jid (normalize_sender jid)) error_reply] else [], w2)"
    by (rule sendMessage_cases)
  with jid body show ?thesis
    by (simp add: handleIncomingMessage_def try_catch_def handleIncomingMessage_catch_def)
qed

lemma handle_after_return:
  assumes "handleIncomingMessage_try axios_post st m w = (Inr u, tr, w1)"
  shows "handleIncomingMessage axios_post st m w = (Inr (), tr, w1)"
  using assms by (simp add: handleIncomingMessage_def try_catch_def)

lemma handle_run:
  assumes jid: "remoteJid (key m) = Some jid"
    and body: "message_body m = Some b"
    and post: "axios_post \<lparr>phone_number = normalize_sender jid, message = messageText b,
                 message_id = key_id (key m), timestamp = messageTimestamp m\<rparr> w = (r, w1)"
  shows "\<exists>w2. handleIncomingMessage axios_post st m w =
     (Inr (),
      AxiosPost \<lparr>phone_number = normalize_sender jid, message = messageText b,
                 message_id = key_id (key m), timestamp = messageTimestamp m\<rparr>
      # (case (case r of
                 Inl e \<Rightarrow> Some error_reply
               | Inr resp \<Rightarrow>
                   (case data resp of
                      None \<Rightarrow> Some error_reply
                    | Some d \<Rightarrow> if truthy (reply d) then reply d else None)) of
           None \<Rightarrow> []
         | Some t \<Rightarrow>
             if connected st then [SockSend (to_jid (normalize_sender jid)) t] else []),
      w2)"
proof -
  define p where "p = \<lparr>phone_number = normalize_sender jid, message = messageText b,
                 message_id = key_id (key m), timestamp = messageTimestamp m\<rparr>"
  note post' = post [folded p_def]
  have failing: "\<exists>w2. handleIncomingMessage axios_post st m w =
           (Inr (), AxiosPost p # (if connected st
                          then [SockSend (to_jid (normalize_sender jid)) error_reply] else []), w2)"
    if "handleIncomingMessage_try axios_post st m w = (Inl e, [AxiosPost p], w1)" for e
    using handle_after_throw [OF jid that] by simp
  have "\<exists>w2. handleIncomingMessage axios_post st m w =
     (Inr (),
      AxiosPost p
      # (case (case r of
                 Inl e \<Rightarrow> Some error_reply
               | Inr resp \<Rightarrow>
                   (case data resp of
                      None \<Rightarrow> Some error_reply
                    | Some d \<Rightarrow> if truthy (reply d) then reply d else None)) of
           None \<Rightarrow> []
         | Some t \<Rightarrow>
             if connected st then [SockSend (to_jid (normalize_sender jid)) t] else []),
      w2)"
  proof (cases r)
    case (Inl e)
    with jid body post' have "handleIncomingMessage_try axios_post st m w = (Inl e, [AxiosPost p], w1)"
      by (simp add: handleIncomingMessage_try_def p_def Let_def)
    from failing [OF this] Inl show ?thesis by simp
  next
    case (Inr resp)
    show ?thesis
    proof (cases "data resp")
      case None
      with Inr jid body post' have "handleIncomingMessage_try axios_post st m w =
          (Inl (TypeError ''Cannot read properties of null (reading reply)''), [AxiosPost p], w1)"
        by (simp add: handleIncomingMessage_try_def p_def Let_def)
      from failing [OF this] Inr None show ?thesis by simp
    next
      case (Some d)
      show ?thesis
      proof (cases "truthy (reply d)")
        case False
        with Some Inr jid body post' have "handleIncomingMessage_try axios_post st m w =
          (Inr (), [AxiosPost p], w1)"
          by (auto simp add: handleIncomingMessage_try_def p_def Let_def split: option.splits)
        from handle_after_return [OF this] Inr Some False show ?thesis by simp
      next
        case True
        then obtain t where t: "reply d = Some t" by (cases "reply d") (simp_all add: truthy_def)
        obtain res w2 where "sendMessage st (Some (normalize_sender jid)) t w1 =
          (Inr res, if connected st then [SockSend (to_jid (normalize_sender jid)) t] else [], w2)"
          by (rule sendMessage_cases)
        with t True Some Inr jid body post' have "handleIncomingMessage_try axios_post st m w =
          (Inr (), AxiosPost p # (if connected st then [SockSend (to_jid (normalize_sender jid)) t] else []), w2)"
          by (simp add: handleIncomingMessage_try_def p_def Let_def)
        from handle_after_return [OF this] Inr Some True t show ?thesis by simp
      qed
    qed
  qed
  then show ?thesis by (simp only: p_def)
qed

lemma handle_no_body:
  assumes jid: "remoteJid (key m) = Some jid" and body: "message_body m = None"
  shows "\<exists>w2. handleIncomingMessage axios_post st m w =
     (Inr (), (if connected st then [SockSend (to_jid (normalize_sender jid)) error_reply] else []), w2)"
proof -
  from jid body have "handleIncomingMessage_try axios_post st m w =
     (Inl (TypeError ''Cannot read properties of undefined (reading conversation)''), [], w)"
    by (simp add: handleIncomingMessage_try_def)
  from handle_after_throw [OF jid this] show ?thesis by simp
qed

lemma handle_no_jid:
  assumes "remoteJid (key m) = None"
  shows "handleIncomingMessage axios_post st m w =
     (Inl (TypeError ''Cannot read properties of undefined (reading replace)''), [], w)"
  using assms
  by (simp add: handleIncomingMessage_def try_catch_def handleIncomingMessage_try_def
      handleIncomingMessage_catch_def)

lemma handle_returns_with_jid:
  assumes "remoteJid (key m) = Some jid"
  shows "outcome (handleIncomingMessage axios_post st m w) = Inr ()"
proof (cases "message_body m")
  case None
  from handle_no_body [OF assms None, of axios_post st w] show ?thesis
    by (auto simp: outcome_def)
next
  case (Some b)
  obtain r w1 where "axios_post \<lparr>phone_number = normalize_sender jid, message = messageText b,
                 message_id = key_id (key m), timestamp = messageTimestamp m\<rparr> w = (r, w1)"
    by (cases "axios_post \<lparr>phone_number = normalize_sender jid, message = messageText b,
                 message_id = key_id (key m), timestamp = messageTimestamp m\<rparr> w")
  from handle_run [where axios_post = axios_post and st = st, OF assms Some this] show ?thesis
    by (auto simp: outcome_def)
qed

lemma messageText_conversation:
  "conversation b = Some s \<Longrightarrow> s \<noteq> [] \<Longrightarrow> messageText b = s"
  by (simp add: messageText_def js_or_def truthy_def Let_def)

lemma messageText_extended:
  "\<not> truthy (conversation b) \<Longrightarrow> extendedTextMessage b = Some x \<Longrightarrow> ext_text x = Some s \<Longrightarrow>
   messageText b = s"
  by (simp add: messageText_def js_or_def truthy_def Let_def)

lemma messageText_empty:
  "\<not> truthy (conversation b) \<Longrightarrow>
   extendedTextMessage b = None \<or> (\<exists>x. extendedTextMessage b = Some x \<and> ext_text x = None) \<Longrightarrow>
   messageText b = []"
  by (auto simp add: messageText_def js_or_def truthy_def Let_def)

text \<open>
  A message whose key carries no remoteJid: reading \<open>replace\<close> of the missing
  remoteJid throws in the \<open>try\<close> block (line 71), and the \<open>catch\<close> block evaluates the
  same expression again (line 93), so the handler rejects with that \<open>TypeError\<close>. The
  awaiting loop of the upsert handler ends there: the second message of the batch is
  never handled.
\<close>

lemma missing_jid_aborts_batch:
  "handleIncomingMessage axios_post st (text_message None ''JOIN'') w =
     (Inl (TypeError ''Cannot read properties of undefined (reading replace)''), [], w)
   \<and> messages_upsert axios_post st
        [text_message None ''JOIN'', text_message (Some ''15551234567@s.whatsapp.net'') ''STATUS'']
        ''notify'' w =
     (Inl (TypeError ''Cannot read properties of undefined (reading replace)''), [], w)"
proof -
  have "remoteJid (key (text_message None ''JOIN'')) = None"
    by (simp add: text_message_def)
  then have h: "handleIncomingMessage axios_post st (text_message None ''JOIN'') w =
     (Inl (TypeError ''Cannot read properties of undefined (reading replace)''), [], w)"
    by (rule handle_no_jid)
  moreover have "fromMe (key (text_message None ''JOIN'')) \<noteq> Some True
    \<and> message_body (text_message None ''JOIN'') \<noteq> None"
    by (simp add: text_message_def)
  ultimately show ?thesis by (simp add: messages_upsert_def)
qed

text \<open>
  A batch in which every message carries a string remoteJid never rejects.
\<close>

lemma messages_loop_returns:
  "list_all (\<lambda>m. remoteJid (key m) \<noteq> None) ms \<Longrightarrow>
   outcome (messages_loop axios_post st ms w) = Inr ()"
proof (induction ms arbitrary: w)
  case Nil
  show ?case by (simp add: outcome_def)
next
  case (Cons m ms)
  then obtain jid where jid: "remoteJid (key m) = Some jid" and rest: "list_all (\<lambda>m. remoteJid (key m) \<noteq> None) ms"
    by auto
  obtain r tr w' where h: "handleIncomingMessage axios_post st m w = (r, tr, w')"
    by (cases "handleIncomingMessage axios_post st m w")
  with handle_returns_with_jid [OF jid, of axios_post st w] have r: "r = Inr ()"
    by (simp add: outcome_def)
  obtain r2 tr2 w2 where l: "messages_loop axios_post st ms w' = (r2, tr2, w2)"
    by (cases "messages_loop axios_post st ms w'")
  with Cons.IH [OF rest, of w'] have "r2 = Inr ()" by (simp add: outcome_def)
  with h r l Cons.IH [OF rest, of w] show ?case by (simp add: outcome_def)
qed

lemma messages_upsert_returns:
  "list_all (\<lambda>m. remoteJid (key m) \<noteq> None) messages \<Longrightarrow>
   outcome (messages_upsert axios_post st messages type w) = Inr ()"
  using messages_loop_returns [of messages axios_post st w]
  by (simp add: messages_upsert_def outcome_def)

text \<open>
  A socket that rejects while a reply is sent: \<open>sendMessage\<close> absorbs the error and
  resolves with \<open>success: false\<close>, and the handler, which does not read that result,
  resolves after the post and that one send.
\<close>

lemma sendMessage_absorbs_rejection:
  assumes "sock st = Some s"
    and "connectionStatus st = ''connected''"
    and "socket_sendMessage s (to_jid p) t w = (Some e, w')"
  shows "sendMessage st (Some p) t w =
     (Inr \<lparr>success = False, error = Some (error_message e)\<rparr>, [SockSend (to_jid p) t], w')"
  using sendMessage_online [OF assms(1,2), of p t w] assms(3) by simp

lemma handle_send_rejected:
  assumes jid: "remoteJid (key m) = Some jid"
    and body: "message_body m = Some b"
    and post: "axios_post \<lparr>phone_number = normalize_sender jid, message = messageText b,
                 message_id = key_id (key m), timestamp = messageTimestamp m\<rparr> w = (Inr resp, w1)"
    and d: "data resp = Some d"
    and t: "reply d = Some t" "t \<noteq> []"
    and s: "sock st = Some s" "connectionStatus st = ''connected''"
    and rej: "socket_sendMessage s (to_jid (normalize_sender jid)) t w1 = (Some e, w2)"
  shows "handleIncomingMessage axios_post st m w =
     (Inr (),
      [AxiosPost \<lparr>phone_number = normalize_sender jid, message = messageText b,
                 message_id = key_id (key m), timestamp = messageTimestamp m\<rparr>,
       SockSend (to_jid (normalize_sender jid)) t],
      w2)"
proof -
  from sendMessage_absorbs_rejection [OF s rej]
  have "sendMessage st (Some (normalize_sender jid)) t w1 =
     (Inr \<lparr>success = False, error = Some (error_message e)\<rparr>,
      [SockSend (to_jid (normalize_sender jid)) t], w2)" .
  with jid body post d t have "handleIncomingMessage_try axios_post st m w =
     (Inr (),
      [AxiosPost \<lparr>phone_number = normalize_sender jid, message = messageText b,
                 message_id = key_id (key m), timestamp = messageTimestamp m\<rparr>,
       SockSend (to_jid (normalize_sender jid)) t],
      w2)"
    by (simp add: handleIncomingMessage_try_def Let_def truthy_def)
  then show ?thesis by (rule handle_after_return)
qed

text \<open>
  Claim C1 as stated fails. When the socket rejects while the backend's reply is sent,
  the failure does not degrade to an error reply: \<open>sendMessage\<close> absorbs it and the
  handler resolves with the backend's reply as the only text handed to the socket.
  And for a message without a remoteJid the handler itself rejects.
\<close>

theorem send_failure_absorbed_missing_jid_thrown:
  "outcome (handleIncomingMessage (backend_replies (Some ''Welcome!'')) (online socket_failing)
      (text_message (Some ''15551234567@s.whatsapp.net'') ''JOIN'') ()) = Inr ()
   \<and> sock_sends (calls (handleIncomingMessage (backend_replies (Some ''Welcome!''))
      (online socket_failing) (text_message (Some ''15551234567@s.whatsapp.net'') ''JOIN'') ())) =
      [(''15551234567@s.whatsapp.net'', ''Welcome!'')]
   \<and> outcome (handleIncomingMessage backend_down (online socket_ok)
      (text_message None ''JOIN'') ()) =
      Inl (TypeError ''Cannot read properties of undefined (reading replace)'')"
  by (simp add: outcome_def calls_def handleIncomingMessage_def try_catch_def
      handleIncomingMessage_try_def handleIncomingMessage_catch_def
      sendMessage_def sendMessage_try_def sendMessage_catch_def
      backend_replies_def backend_down_def online_def socket_failing_def text_message_def
      normalize_sender_def channel_suffix_def to_jid_def messageText_def js_or_def truthy_def)

text \<open>
  Claim C1, as the code has it: for every message whose key carries a string remoteJid,
  the handler never rejects, whatever the backend and the socket do. When the forward
  to the backend rejects, the failure degrades to the error reply, which is handed to
  the socket if the service is connected. When the socket rejects while the backend's
  reply is sent, the failure is absorbed by \<open>sendMessage\<close>, which resolves with
  \<open>success: false\<close>, and no error reply follows: the handler resolves having made the
  post and that one send, and nothing else.
\<close>

theorem handleIncomingMessage_never_rejects:
  assumes "remoteJid (key m) = Some jid"
  shows "outcome (handleIncomingMessage axios_post st m w) = Inr ()
    \<and> (\<forall>b e w1.
          message_body m = Some b
          \<and> axios_post \<lparr>phone_number = normalize_sender jid, message = messageText b,
               message_id = key_id (key m), timestamp = messageTimestamp m\<rparr> w = (Inl e, w1)
          \<longrightarrow> sock_sends (calls (handleIncomingMessage axios_post st m w)) =
                (if connected st then [(to_jid (normalize_sender jid), error_reply)] else []))
    \<and> (\<forall>b resp w1 d t s e w2.
          message_body m = Some b
          \<and> axios_post \<lparr>phone_number = normalize_sender jid, message = messageText b,
               message_id = key_id (key m), timestamp = messageTimestamp m\<rparr> w = (Inr resp, w1)
          \<and> data resp = Some d \<and> reply d = Some t \<and> t \<noteq> []
          \<and> sock st = Some s \<and> connectionStatus st = ''connected''
          \<and> socket_sendMessage s (to_jid (normalize_sender jid)) t w1 = (Some e, w2)
          \<longrightarrow> sendMessage st (Some (normalize_sender jid)) t w1 =
                (Inr \<lparr>success = False, error = Some (error_message e)\<rparr>,
                 [SockSend (to_jid (normalize_sender jid)) t], w2)
              \<and> handleIncomingMessage axios_post st m w =
                (Inr (),
                 [AxiosPost \<lparr>phone_number = normalize_sender jid, message = messageText b,
                     message_id = key_id (key m), timestamp = messageTimestamp m\<rparr>,
                  SockSend (to_jid (normalize_sender jid)) t],
                 w2))"
proof (intro conjI allI impI)
  show "outcome (handleIncomingMessage axios_post st m w) = Inr ()"
    using assms by (rule handle_returns_with_jid)
next
  fix b e w1
  assume h: "message_body m = Some b
          \<and> axios_post \<lparr>phone_number = normalize_sender jid, message = messageText b,
               message_id = key_id (key m), timestamp = messageTimestamp m\<rparr> w = (Inl e, w1)"
  then have b: "message_body m = Some b"
    and p: "axios_post \<lparr>phone_number = normalize_sender jid, message = messageText b,
               message_id = key_id (key m), timestamp = messageTimestamp m\<rparr> w = (Inl e, w1)"
    by simp_all
  from handle_run [where st = st and axios_post = axios_post, OF assms b p]
  show "sock_sends (calls (handleIncomingMessage axios_post st m w)) =
                (if connected st then [(to_jid (normalize_sender jid), error_reply)] else [])"
    by (auto simp: calls_def)
next
  fix b resp w1 d t s e w2
  assume h: "message_body m = Some b
          \<and> axios_post \<lparr>phone_number = normalize_sender jid, message = messageText b,
               message_id = key_id (key m), timestamp = messageTimestamp m\<rparr> w = (Inr resp, w1)
          \<and> data resp = Some d \<and> reply d = Some t \<and> t \<noteq> []
          \<and> sock st = Some s \<and> connectionStatus st = ''connected''
          \<and> socket_sendMessage s (to_jid (normalize_sender jid)) t w1 = (Some e, w2)"
  then have s: "sock st = Some s" "connectionStatus st = ''connected''"
    and rej: "socket_sendMessage s (to_jid (normalize_sender jid)) t w1 = (Some e, w2)"
    by simp_all
  show "sendMessage st (Some (normalize_sender jid)) t w1 =
                (Inr \<lparr>success = False, error = Some (error_message e)\<rparr>,
                 [SockSend (to_jid (normalize_sender jid)) t], w2)"
    using s rej by (rule sendMessage_absorbs_rejection)
  from h have b: "message_body m = Some b"
    and p: "axios_post \<lparr>phone_number = normalize_sender jid, message = messageText b,
               message_id = key_id (key m), timestamp = messageTimestamp m\<rparr> w = (Inr resp, w1)"
    and d: "data resp = Some d" and t: "reply d = Some t" "t \<noteq> []"
    by simp_all
  show "handleIncomingMessage axios_post st m w =
                (Inr (),
                 [AxiosPost \<lparr>phone_number = normalize_sender jid, message = messageText b,
                     message_id = key_id (key m), timestamp = messageTimestamp m\<rparr>,
                  SockSend (to_jid (normalize_sender jid)) t],
                 w2)"
    using assms b p d t s rej by (rule handle_send_rejected)
qed

text \<open>
  Claim C1, as the code has it, at a text message from
  \<open>15551234567@s.whatsapp.net\<close>: with the backend down and a working socket the
  handler resolves and the error reply goes to the sender; with a backend that answers
  \<open>Welcome!\<close> and a socket that rejects, the handler makes the post and the one send
  and no other call.
\<close>

theorem handleIncomingMessage_never_rejects_witness:
  "outcome (handleIncomingMessage backend_down (online socket_ok)
      (text_message (Some ''15551234567@s.whatsapp.net'') ''JOIN'') ()) = Inr ()
   \<and> sock_sends (calls (handleIncomingMessage backend_down (online socket_ok)
      (text_message (Some ''15551234567@s.whatsapp.net'') ''JOIN'') ())) =
      [(''15551234567@s.whatsapp.net'', error_reply)]
   \<and> calls (handleIncomingMessage (backend_replies (Some ''Welcome!'')) (online socket_failing)
      (text_message (Some ''15551234567@s.whatsapp.net'') ''JOIN'') ()) =
      [AxiosPost \<lparr>phone_number = ''15551234567'', message = ''JOIN'',
                  message_id = Some ''3EB0A1'', timestamp = Some 1700000000\<rparr>,
       SockSend ''15551234567@s.whatsapp.net'' ''Welcome!'']"
proof -
  let ?m = "text_message (Some ''15551234567@s.whatsapp.net'') ''JOIN''"
  let ?b = "\<lparr>conversation = Some ''JOIN'', extendedTextMessage = None\<rparr>"
  let ?p = "\<lparr>phone_number = normalize_sender ''15551234567@s.whatsapp.net'',
       message = messageText ?b,
       message_id = key_id (key ?m), timestamp = messageTimestamp ?m\<rparr>"
  have j: "remoteJid (key ?m) = Some ''15551234567@s.whatsapp.net''"
    by (simp add: text_message_def)
  have b: "message_body ?m = Some ?b"
    by (simp add: text_message_def)
  have p: "backend_down ?p () = (Inl (Error ''connect ECONNREFUSED''), ())"
    by (simp add: backend_down_def)
  have c: "connected (online socket_ok)"
    by (simp add: connected_def online_def)
  have n: "to_jid (normalize_sender ''15551234567@s.whatsapp.net'') = ''15551234567@s.whatsapp.net''"
    by (simp add: normalize_sender_def channel_suffix_def to_jid_def)
  have n': "normalize_sender ''15551234567@s.whatsapp.net'' = ''15551234567''"
    by (simp add: normalize_sender_def channel_suffix_def)
  have x: "messageText ?b = ''JOIN''"
    by (simp add: messageText_def js_or_def truthy_def)
  from handleIncomingMessage_never_rejects
    [where st = "online socket_ok" and axios_post = backend_down and w = "()", OF j]
  have o: "outcome (handleIncomingMessage backend_down (online socket_ok) ?m ()) = Inr ()"
    and a: "\<forall>b e w1.
          message_body ?m = Some b
          \<and> backend_down \<lparr>phone_number = normalize_sender ''15551234567@s.whatsapp.net'',
               message = messageText b,
               message_id = key_id (key ?m), timestamp = messageTimestamp ?m\<rparr> () = (Inl e, w1)
          \<longrightarrow> sock_sends (calls (handleIncomingMessage backend_down (online socket_ok) ?m ())) =
                (if connected (online socket_ok)
                 then [(to_jid (normalize_sender ''15551234567@s.whatsapp.net''), error_reply)] else [])"
    by blast+
  from a b p have first: "sock_sends (calls (handleIncomingMessage backend_down (online socket_ok) ?m ())) =
                (if connected (online socket_ok)
                 then [(to_jid (normalize_sender ''15551234567@s.whatsapp.net''), error_reply)] else [])"
    by blast
  have q: "backend_replies (Some ''Welcome!'') ?p () =
      (Inr \<lparr>data = Some \<lparr>reply = Some ''Welcome!''\<rparr>\<rparr>, ())"
    by (simp add: backend_replies_def)
  have d: "data \<lparr>data = Some \<lparr>reply = Some ''Welcome!''\<rparr>\<rparr> = Some \<lparr>reply = Some ''Welcome!''\<rparr>"
    and t: "reply \<lparr>reply = Some ''Welcome!''\<rparr> = Some ''Welcome!''" "''Welcome!'' \<noteq> []"
    by simp_all
  have s: "sock (online socket_failing) = Some socket_failing"
    "connectionStatus (online socket_failing) = ''connected''"
    by (simp_all add: online_def)
  have rej: "socket_sendMessage socket_failing
      (to_jid (normalize_sender ''15551234567@s.whatsapp.net'')) ''Welcome!'' () =
      (Some (Error ''Connection Closed''), ())"
    by (simp add: socket_failing_def)
  from handleIncomingMessage_never_rejects
    [where st = "online socket_failing" and axios_post = "backend_replies (Some ''Welcome!'')"
       and w = "()", OF j]
  have "\<forall>b resp w1 d t s e w2.
          message_body ?m = Some b
          \<and> backend_replies (Some ''Welcome!'')
               \<lparr>phone_number = normalize_sender ''15551234567@s.whatsapp.net'',
               message = messageText b,
               message_id = key_id (key ?m), timestamp = messageTimestamp ?m\<rparr> () = (Inr resp, w1)
          \<and> data resp = Some d \<and> reply d = Some t \<and> t \<noteq> []
          \<and> sock (online socket_failing) = Some s
          \<and> connectionStatus (online socket_failing) = ''connected''
          \<and> socket_sendMessage s (to_jid (normalize_sender ''15551234567@s.whatsapp.net'')) t w1 = (Some e, w2)
          \<longrightarrow> sendMessage (online socket_failing) (Some (normalize_sender ''15551234567@s.whatsapp.net'')) t w1 =
                (Inr \<lparr>success = False, error = Some (error_message e)\<rparr>,
                 [SockSend (to_jid (normalize_sender ''15551234567@s.whatsapp.net'')) t], w2)
              \<and> handleIncomingMessage (backend_replies (Some ''Welcome!'')) (online socket_failing) ?m () =
                (Inr (),
                 [AxiosPost \<lparr>phone_number = normalize_sender ''15551234567@s.whatsapp.net'',
                     message = messageText b,
                     message_id = key_id (key ?m), timestamp = messageTimestamp ?m\<rparr>,
                  SockSend (to_jid (normalize_sender ''15551234567@s.whatsapp.net'')) t],
                 w2)"
    by blast
  with b q d t s rej
  have second: "handleIncomingMessage (backend_replies (Some ''Welcome!'')) (online socket_failing) ?m () =
                (Inr (),
                 [AxiosPost ?p,
                  SockSend (to_jid (normalize_sender ''15551234567@s.whatsapp.net'')) ''Welcome!''],
                 ())"
    by blast
  from o first c n have "outcome (handleIncomingMessage backend_down (online socket_ok) ?m ()) = Inr ()
   \<and> sock_sends (calls (handleIncomingMessage backend_down (online socket_ok) ?m ())) =
      [(''15551234567@s.whatsapp.net'', error_reply)]"
    by simp
  moreover from second n n' x
  have "calls (handleIncomingMessage (backend_replies (Some ''Welcome!'')) (online socket_failing) ?m ()) =
      [AxiosPost \<lparr>phone_number = ''15551234567'', message = ''JOIN'',
                  message_id = Some ''3EB0A1'', timestamp = Some 1700000000\<rparr>,
       SockSend ''15551234567@s.whatsapp.net'' ''Welcome!'']"
    by (simp add: calls_def text_message_def)
  ultimately show ?thesis by simp
qed

text \<open>
  Claim C2 as stated fails when sending the backend's reply fails: the socket rejects,
  \<open>sendMessage\<close> catches the error and resolves with \<open>success: false\<close>, and the
  handler, which does not look at that result, makes no further call. The only text handed
  to the socket is the backend's reply; the error reply is never attempted.
\<close>

theorem transport_failure_no_error_reply:
  "handleIncomingMessage (backend_replies (Some ''Welcome!'')) (online socket_failing)
     (text_message (Some ''15551234567@s.whatsapp.net'') ''JOIN'') () =
   (Inr (),
    [AxiosPost \<lparr>phone_number = ''15551234567'', message = ''JOIN'',
                message_id = Some ''3EB0A1'', timestamp = Some 1700000000\<rparr>,
     SockSend ''15551234567@s.whatsapp.net'' ''Welcome!''],
    ())"
  by (simp add: handleIncomingMessage_def try_catch_def handleIncomingMessage_try_def
      sendMessage_def sendMessage_try_def sendMessage_catch_def
      backend_replies_def online_def socket_failing_def text_message_def
      normalize_sender_def channel_suffix_def to_jid_def messageText_def js_or_def truthy_def)

text \<open>
  Claim C2, as the code has it: for every message with a string remoteJid and a body,
  when the forward to the backend rejects, or resolves with a response whose data is
  \<open>null\<close>, the handler resolves and calls \<open>sendMessage\<close> once, after the post, with the
  normalized sender and the fixed error text; that call hands the error reply to the
  socket when the service is connected and to nobody otherwise. When instead the
  socket rejects while the backend's reply is sent, \<open>sendMessage\<close> catches the error
  and resolves with \<open>success: false\<close>, and the handler resolves having made the post
  and that one send only: no error reply is produced.
\<close>

theorem forward_failure_sends_error_reply:
  assumes "remoteJid (key m) = Some jid"
    and "message_body m = Some b"
    and "axios_post \<lparr>phone_number = normalize_sender jid, message = messageText b,
           message_id = key_id (key m), timestamp = messageTimestamp m\<rparr> w = (r, w1)"
  shows "((\<exists>e. r = Inl e) \<or> (\<exists>resp. r = Inr resp \<and> data resp = None) \<longrightarrow>
      outcome (handleIncomingMessage axios_post st m w) = Inr ()
      \<and> calls (handleIncomingMessage axios_post st m w) =
          AxiosPost \<lparr>phone_number = normalize_sender jid, message = messageText b,
             message_id = key_id (key m), timestamp = messageTimestamp m\<rparr>
          # calls (sendMessage st (Some (normalize_sender jid)) error_reply w1)
      \<and> calls (sendMessage st (Some (normalize_sender jid)) error_reply w1) =
          (if connected st then [SockSend (to_jid (normalize_sender jid)) error_reply] else []))
    \<and> (\<forall>resp d t s e w2.
          r = Inr resp \<and> data resp = Some d \<and> reply d = Some t \<and> t \<noteq> []
          \<and> sock st = Some s \<and> connectionStatus st = ''connected''
          \<and> socket_sendMessage s (to_jid (normalize_sender jid)) t w1 = (Some e, w2)
          \<longrightarrow> sendMessage st (Some (normalize_sender jid)) t w1 =
                (Inr \<lparr>success = False, error = Some (error_message e)\<rparr>,
                 [SockSend (to_jid (normalize_sender jid)) t], w2)
              \<and> handleIncomingMessage axios_post st m w =
                (Inr (),
                 [AxiosPost \<lparr>phone_number = normalize_sender jid, message = messageText b,
                     message_id = key_id (key m), timestamp = messageTimestamp m\<rparr>,
                  SockSend (to_jid (normalize_sender jid)) t],
                 w2))"
proof (intro conjI allI impI)
  assume f: "(\<exists>e. r = Inl e) \<or> (\<exists>resp. r = Inr resp \<and> data resp = None)"
  obtain res w2 where s: "sendMessage st (Some (normalize_sender jid)) error_reply w1 =
      (Inr res, if connected st then [SockSend (to_jid (normalize_sender jid)) error_reply] else [], w2)"
    by (rule sendMessage_cases)
  from handle_run [where st = st and axios_post = axios_post, OF assms] f s
  show "outcome (handleIncomingMessage axios_post st m w) = Inr ()"
    and "calls (handleIncomingMessage axios_post st m w) =
          AxiosPost \<lparr>phone_number = normalize_sender jid, message = messageText b,
             message_id = key_id (key m), timestamp = messageTimestamp m\<rparr>
          # calls (sendMessage st (Some (normalize_sender jid)) error_reply w1)"
    and "calls (sendMessage st (Some (normalize_sender jid)) error_reply w1) =
          (if connected st then [SockSend (to_jid (normalize_sender jid)) error_reply] else [])"
    by (auto simp: outcome_def calls_def)
next
  fix resp d t s e w2
  assume h: "r = Inr resp \<and> data resp = Some d \<and> reply d = Some t \<and> t \<noteq> []
          \<and> sock st = Some s \<and> connectionStatus st = ''connected''
          \<and> socket_sendMessage s (to_jid (normalize_sender jid)) t w1 = (Some e, w2)"
  then have s: "sock st = Some s" "connectionStatus st = ''connected''"
    and rej: "socket_sendMessage s (to_jid (normalize_sender jid)) t w1 = (Some e, w2)"
    by simp_all
  show "sendMessage st (Some (normalize_sender jid)) t w1 =
                (Inr \<lparr>success = False, error = Some (error_message e)\<rparr>,
                 [SockSend (to_jid (normalize_sender jid)) t], w2)"
    using s rej by (rule sendMessage_absorbs_rejection)
  from h assms(3) have p: "axios_post \<lparr>phone_number = normalize_sender jid, message = messageText b,
           message_id = key_id (key m), timestamp = messageTimestamp m\<rparr> w = (Inr resp, w1)"
    and d: "data resp = Some d" and t: "reply d = Some t" "t \<noteq> []"
    by simp_all
  show "handleIncomingMessage axios_post st m w =
                (Inr (),
                 [AxiosPost \<lparr>phone_number = normalize_sender jid, message = messageText b,
                     message_id = key_id (key m), timestamp = messageTimestamp m\<rparr>,
                  SockSend (to_jid (normalize_sender jid)) t],
                 w2)"
    using assms(1,2) p d t s rej by (rule handle_send_rejected)
qed

text \<open>
  Claim C2, as the code has it, at a text message from
  \<open>15551234567@s.whatsapp.net\<close>: with the backend down and a working socket, the post
  is followed by the error reply to the sender; with a backend that answers
  \<open>Welcome!\<close> and a socket that rejects, that reply is the only text handed to the
  socket.
\<close>

theorem forward_failure_sends_error_reply_witness:
  "calls (handleIncomingMessage backend_down (online socket_ok)
     (text_message (Some ''15551234567@s.whatsapp.net'') ''JOIN'') ()) =
   [AxiosPost \<lparr>phone_number = ''15551234567'', message = ''JOIN'',
                message_id = Some ''3EB0A1'', timestamp = Some 1700000000\<rparr>,
    SockSend ''15551234567@s.whatsapp.net'' error_reply]
   \<and> sock_sends (calls (handleIncomingMessage (backend_replies (Some ''Welcome!''))
     (online socket_failing) (text_message (Some ''15551234567@s.whatsapp.net'') ''JOIN'') ())) =
     [(''15551234567@s.whatsapp.net'', ''Welcome!'')]"
proof -
  let ?m = "text_message (Some ''15551234567@s.whatsapp.net'') ''JOIN''"
  let ?b = "\<lparr>conversation = Some ''JOIN'', extendedTextMessage = None\<rparr>"
  let ?p = "\<lparr>phone_number = normalize_sender ''15551234567@s.whatsapp.net'',
       message = messageText ?b,
       message_id = key_id (key ?m), timestamp = messageTimestamp ?m\<rparr>"
  let ?resp = "\<lparr>data = Some \<lparr>reply = Some ''Welcome!''\<rparr>\<rparr>"
  have j: "remoteJid (key ?m) = Some ''15551234567@s.whatsapp.net''"
    by (simp add: text_message_def)
  have b: "message_body ?m = Some ?b"
    by (simp add: text_message_def)
  have p: "backend_down ?p () = (Inl (Error ''connect ECONNREFUSED''), ())"
    by (simp add: backend_down_def)
  have f: "(\<exists>e. (Inl (Error ''connect ECONNREFUSED'') :: exn + response) = Inl e)
     \<or> (\<exists>resp. Inl (Error ''connect ECONNREFUSED'') = Inr resp \<and> data resp = None)"
    by simp
  have c: "connected (online socket_ok)"
    by (simp add: connected_def online_def)
  have n: "normalize_sender ''15551234567@s.whatsapp.net'' = ''15551234567''"
    by (simp add: normalize_sender_def channel_suffix_def)
  have t: "to_jid ''15551234567'' = ''15551234567@s.whatsapp.net''"
    by (simp add: to_jid_def channel_suffix_def)
  have x: "messageText ?b = ''JOIN''"
    by (simp add: messageText_def js_or_def truthy_def)
  from forward_failure_sends_error_reply
    [where st = "online socket_ok" and axios_post = backend_down, OF j b p] f
  have "calls (handleIncomingMessage backend_down (online socket_ok) ?m ()) =
          AxiosPost ?p
          # calls (sendMessage (online socket_ok)
              (Some (normalize_sender ''15551234567@s.whatsapp.net'')) error_reply ())"
    and "calls (sendMessage (online socket_ok)
              (Some (normalize_sender ''15551234567@s.whatsapp.net'')) error_reply ()) =
          (if connected (online socket_ok)
           then [SockSend (to_jid (normalize_sender ''15551234567@s.whatsapp.net'')) error_reply]
           else [])"
    by blast+
  with c have first: "calls (handleIncomingMessage backend_down (online socket_ok) ?m ()) =
   [AxiosPost \<lparr>phone_number = ''15551234567'', message = ''JOIN'',
                message_id = Some ''3EB0A1'', timestamp = Some 1700000000\<rparr>,
    SockSend ''15551234567@s.whatsapp.net'' error_reply]"
    by (simp add: n t x text_message_def)
  have q: "backend_replies (Some ''Welcome!'') ?p () = (Inr ?resp, ())"
    by (simp add: backend_replies_def)
  have h: "(Inr ?resp :: exn + response) = Inr ?resp
      \<and> data ?resp = Some \<lparr>reply = Some ''Welcome!''\<rparr>
      \<and> reply \<lparr>reply = Some ''Welcome!''\<rparr> = Some ''Welcome!'' \<and> ''Welcome!'' \<noteq> []
      \<and> sock (online socket_failing) = Some socket_failing
      \<and> connectionStatus (online socket_failing) = ''connected''
      \<and> socket_sendMessage socket_failing
           (to_jid (normalize_sender ''15551234567@s.whatsapp.net'')) ''Welcome!'' () =
           (Some (Error ''Connection Closed''), ())"
    by (simp add: online_def socket_failing_def)
  from forward_failure_sends_error_reply
    [where st = "online socket_failing" and axios_post = "backend_replies (Some ''Welcome!'')",
     OF j b q]
  have "\<forall>resp d t s e w2.
          (Inr ?resp :: exn + response) = Inr resp \<and> data resp = Some d \<and> reply d = Some t \<and> t \<noteq> []
          \<and> sock (online socket_failing) = Some s
          \<and> connectionStatus (online socket_failing) = ''connected''
          \<and> socket_sendMessage s (to_jid (normalize_sender ''15551234567@s.whatsapp.net'')) t () = (Some e, w2)
          \<longrightarrow> sendMessage (online socket_failing)
                  (Some (normalize_sender ''15551234567@s.whatsapp.net'')) t () =
                (Inr \<lparr>success = False, error = Some (error_message e)\<rparr>,
                 [SockSend (to_jid (normalize_sender ''15551234567@s.whatsapp.net'')) t], w2)
              \<and> handleIncomingMessage (backend_replies (Some ''Welcome!'')) (online socket_failing) ?m () =
                (Inr (),
                 [AxiosPost ?p,
                  SockSend (to_jid (normalize_sender ''15551234567@s.whatsapp.net'')) t],
                 w2)"
    by blast
  with h have "handleIncomingMessage (backend_replies (Some ''Welcome!'')) (online socket_failing) ?m () =
                (Inr (),
                 [AxiosPost ?p,
                  SockSend (to_jid (normalize_sender ''15551234567@s.whatsapp.net'')) ''Welcome!''],
                 ())"
    by blast
  then have second: "sock_sends (calls (handleIncomingMessage (backend_replies (Some ''Welcome!''))
     (online socket_failing) ?m ())) = [(''15551234567@s.whatsapp.net'', ''Welcome!'')]"
    by (simp add: calls_def n t)
  from first second show ?thesis by simp
qed

section \<open>The filter of the upsert handler\<close>

lemma messages_loop_skip:
  assumes "fromMe (key m) = Some True \<or> message_body m = None"
  shows "messages_loop axios_post st (before @ m # after) w =
         messages_loop axios_post st (before @ after) w"
proof (induction before arbitrary: w)
  case Nil
  from assms show ?case by auto
next
  case (Cons x xs)
  show ?case
  proof (cases "fromMe (key x) \<noteq> Some True \<and> message_body x \<noteq> None")
    case False
    then have "messages_loop axios_post st ((x # xs) @ m # after) w =
        messages_loop axios_post st (xs @ m # after) w"
      and "messages_loop axios_post st ((x # xs) @ after) w =
        messages_loop axios_post st (xs @ after) w"
      by auto
    with Cons.IH [of w] show ?thesis by simp
  next
    case True
    obtain r tr w' where h: "handleIncomingMessage axios_post st x w = (r, tr, w')"
      by (cases "handleIncomingMessage axios_post st x w")
    show ?thesis
    proof (cases r)
      case (Inl e)
      with True h show ?thesis by simp
    next
      case (Inr u)
      with True h Cons.IH [of w'] show ?thesis by simp
    qed
  qed
qed

text \<open>
  Claim C6: an upsert event whose type is not \<open>notify\<close> makes no call at all, and in a
  \<open>notify\<close> batch a self-sent echo or a message without a body is skipped: the run of
  the batch is the run of the batch without that message, wherever it stands, and a
  batch of that message alone makes no call, so nothing is forwarded and no reply is
  sent for it.
\<close>

theorem upsert_filters_non_actionable:
  "(type \<noteq> ''notify'' \<longrightarrow>
      messages_upsert axios_post st messages type w = (Inr (), [], w))
   \<and> (fromMe (key m) = Some True \<or> message_body m = None \<longrightarrow>
        messages_upsert axios_post st (before @ m # after) type w =
          messages_upsert axios_post st (before @ after) type w
        \<and> messages_upsert axios_post st [m] type w = (Inr (), [], w))"
proof (intro conjI impI)
  assume "type \<noteq> ''notify''"
  then show "messages_upsert axios_post st messages type w = (Inr (), [], w)"
    by (simp add: messages_upsert_def)
next
  assume h: "fromMe (key m) = Some True \<or> message_body m = None"
  then show "messages_upsert axios_post st (before @ m # after) type w =
          messages_upsert axios_post st (before @ after) type w"
    by (simp add: messages_upsert_def messages_loop_skip)
next
  assume h: "fromMe (key m) = Some True \<or> message_body m = None"
  then show "messages_upsert axios_post st [m] type w = (Inr (), [], w)"
    by (auto simp add: messages_upsert_def)
qed

text \<open>
  Claim C6 at a \<open>notify\<close> batch holding one self-sent echo, with the backend down
  and a working socket: no call is made.
\<close>

theorem upsert_filters_non_actionable_witness:
  "fromMe (key ((text_message (Some ''15551234567@s.whatsapp.net'') ''JOIN'')
       \<lparr>key := \<lparr>remoteJid = Some ''15551234567@s.whatsapp.net'', fromMe = Some True,
                 key_id = Some ''3EB0A2''\<rparr>\<rparr>)) = Some True
   \<and> calls (messages_upsert backend_down (online socket_ok)
       [(text_message (Some ''15551234567@s.whatsapp.net'') ''JOIN'')
          \<lparr>key := \<lparr>remoteJid = Some ''15551234567@s.whatsapp.net'', fromMe = Some True,
                    key_id = Some ''3EB0A2''\<rparr>\<rparr>]
       ''notify'' ()) = []"
proof -
  let ?echo = "(text_message (Some ''15551234567@s.whatsapp.net'') ''JOIN'')
       \<lparr>key := \<lparr>remoteJid = Some ''15551234567@s.whatsapp.net'', fromMe = Some True,
                 key_id = Some ''3EB0A2''\<rparr>\<rparr>"
  have h: "fromMe (key ?echo) = Some True" by simp
  with upsert_filters_non_actionable [of "''notify''" backend_down "online socket_ok" "[]" "()" ?echo "[]" "[]"]
  have "messages_upsert backend_down (online socket_ok) [?echo] ''notify'' () = (Inr (), [], ())"
    by blast
  with h show ?thesis by (simp only: calls_def fst_conv snd_conv simp_thms)
qed

section \<open>Outbound messages and the forwarded payload\<close>

text \<open>
  Claim C7 as stated fails in both directions. With the backend down there is no
  response of the core at all, and the fixed error reply is handed to the socket; with
  the service disconnected, a non-empty reply of the core is handed to nobody.
\<close>

theorem outbound_not_iff_core_reply:
  "sock_sends (calls (handleIncomingMessage backend_down (online socket_ok)
      (text_message (Some ''15551234567@s.whatsapp.net'') ''JOIN'') ())) =
     [(''15551234567@s.whatsapp.net'', error_reply)]
   \<and> sock_sends (calls (handleIncomingMessage (backend_replies (Some ''Welcome!'')) offline
      (text_message (Some ''15551234567@s.whatsapp.net'') ''JOIN'') ())) = []"
  by (simp add: calls_def handleIncomingMessage_def try_catch_def handleIncomingMessage_try_def
      handleIncomingMessage_catch_def sendMessage_def sendMessage_try_def sendMessage_catch_def
      backend_down_def backend_replies_def online_def offline_def socket_ok_def text_message_def
      normalize_sender_def channel_suffix_def to_jid_def messageText_def js_or_def truthy_def)

lemma single_outbound_message:
  assumes "remoteJid (key m) = Some jid"
    and "message_body m = Some b"
    and "axios_post \<lparr>phone_number = normalize_sender jid, message = messageText b,
           message_id = key_id (key m), timestamp = messageTimestamp m\<rparr> w = (r, w1)"
  shows "sock_sends (calls (handleIncomingMessage axios_post st m w)) =
     (case r of
        Inl e \<Rightarrow> if connected st then [(to_jid (normalize_sender jid), error_reply)] else []
      | Inr resp \<Rightarrow>
          (case data resp of
             None \<Rightarrow> if connected st then [(to_jid (normalize_sender jid), error_reply)] else []
           | Some d \<Rightarrow>
               (case reply d of
                  None \<Rightarrow> []
                | Some t \<Rightarrow>
                    if t \<noteq> [] \<and> connected st then [(to_jid (normalize_sender jid), t)] else [])))"
  using handle_run [where st = st and axios_post = axios_post, OF assms]
  by (auto simp: calls_def truthy_def split: sum.splits option.splits)

text \<open>
  Claim C7, as the code has it: for every message with a string remoteJid and a body,
  at most one message is handed to the socket, it is addressed to the jid of the
  normalized sender, and the service must be connected for it. When the forward
  resolves with a data object, that message is the core's reply, handed over exactly
  when the reply field is a non-empty string; when the forward rejects or resolves
  without a data object, it is the fixed error reply.
\<close>

theorem outbound_is_single_reply:
  assumes "remoteJid (key m) = Some jid"
    and "message_body m = Some b"
    and "axios_post \<lparr>phone_number = normalize_sender jid, message = messageText b,
           message_id = key_id (key m), timestamp = messageTimestamp m\<rparr> w = (r, w1)"
  shows "sock_sends (calls (handleIncomingMessage axios_post st m w)) =
     (case r of
        Inl e \<Rightarrow> if connected st then [(to_jid (normalize_sender jid), error_reply)] else []
      | Inr resp \<Rightarrow>
          (case data resp of
             None \<Rightarrow> if connected st then [(to_jid (normalize_sender jid), error_reply)] else []
           | Some d \<Rightarrow>
               (case reply d of
                  None \<Rightarrow> []
                | Some t \<Rightarrow>
                    if t \<noteq> [] \<and> connected st then [(to_jid (normalize_sender jid), t)] else [])))"
  using assms by (rule single_outbound_message)

text \<open>
  Claim C7, as the code has it, with a connected service and a backend that answers
  \<open>Welcome!\<close>: that reply, and nothing else, goes to the sender's jid.
\<close>

theorem outbound_is_single_reply_witness:
  "sock_sends (calls (handleIncomingMessage (backend_replies (Some ''Welcome!'')) (online socket_ok)
      (text_message (Some ''15551234567@s.whatsapp.net'') ''JOIN'') ())) =
     [(''15551234567@s.whatsapp.net'', ''Welcome!'')]"
proof -
  let ?m = "text_message (Some ''15551234567@s.whatsapp.net'') ''JOIN''"
  have j: "remoteJid (key ?m) = Some ''15551234567@s.whatsapp.net''"
    by (simp add: text_message_def)
  have b: "message_body ?m = Some \<lparr>conversation = Some ''JOIN'', extendedTextMessage = None\<rparr>"
    by (simp add: text_message_def)
  have p: "backend_replies (Some ''Welcome!'')
      \<lparr>phone_number = normalize_sender ''15551234567@s.whatsapp.net'',
       message = messageText \<lparr>conversation = Some ''JOIN'', extendedTextMessage = None\<rparr>,
       message_id = key_id (key ?m), timestamp = messageTimestamp ?m\<rparr> () =
     (Inr \<lparr>data = Some \<lparr>reply = Some ''Welcome!''\<rparr>\<rparr>, ())"
    by (simp add: backend_replies_def)
  have c: "connected (online socket_ok)"
    by (simp add: connected_def online_def)
  have n: "to_jid (normalize_sender ''15551234567@s.whatsapp.net'') = ''15551234567@s.whatsapp.net''"
    by (simp add: normalize_sender_def channel_suffix_def to_jid_def)
  from outbound_is_single_reply
    [where st = "online socket_ok" and axios_post = "backend_replies (Some ''Welcome!'')", OF j b p] c n
  show ?thesis by simp
qed

text \<open>
  Claim C8: for every message with a body, the payloads forwarded to the backend are
  none when the remoteJid is missing, and otherwise exactly one: the object with the
  four fields \<open>phone_number\<close>, the normalized sender, \<open>message\<close>, the raw text,
  \<open>message_id\<close>, the id of the message key, and \<open>timestamp\<close>, the message timestamp.
  The raw text is a string in every case: the conversation text when that is a
  non-empty string, else the extended text when there is one, else the empty string.
\<close>

theorem forwarded_payload:
  assumes "message_body m = Some b"
  shows "posts (calls (handleIncomingMessage axios_post st m w)) =
     (case remoteJid (key m) of
        None \<Rightarrow> []
      | Some jid \<Rightarrow>
          [\<lparr>phone_number = normalize_sender jid, message = messageText b,
            message_id = key_id (key m), timestamp = messageTimestamp m\<rparr>])
   \<and> (\<forall>s. conversation b = Some s \<and> s \<noteq> [] \<longrightarrow> messageText b = s)
   \<and> (\<forall>x s. \<not> truthy (conversation b) \<and> extendedTextMessage b = Some x \<and> ext_text x = Some s
        \<longrightarrow> messageText b = s)
   \<and> (\<not> truthy (conversation b)
        \<and> (extendedTextMessage b = None \<or> (\<exists>x. extendedTextMessage b = Some x \<and> ext_text x = None))
        \<longrightarrow> messageText b = [])"
proof (intro conjI allI impI)
  show "posts (calls (handleIncomingMessage axios_post st m w)) =
     (case remoteJid (key m) of
        None \<Rightarrow> []
      | Some jid \<Rightarrow>
          [\<lparr>phone_number = normalize_sender jid, message = messageText b,
            message_id = key_id (key m), timestamp = messageTimestamp m\<rparr>])"
  proof (cases "remoteJid (key m)")
    case None
    then show ?thesis by (simp add: handle_no_jid calls_def)
  next
    case (Some jid)
    obtain r w1 where "axios_post \<lparr>phone_number = normalize_sender jid, message = messageText b,
           message_id = key_id (key m), timestamp = messageTimestamp m\<rparr> w = (r, w1)"
      by (cases "axios_post \<lparr>phone_number = normalize_sender jid, message = messageText b,
           message_id = key_id (key m), timestamp = messageTimestamp m\<rparr> w")
    from handle_run [where st = st and axios_post = axios_post, OF Some assms this] Some
    show ?thesis by (auto simp: calls_def split: sum.splits option.splits)
  qed
next
  fix s assume "conversation b = Some s \<and> s \<noteq> []"
  then show "messageText b = s" by (simp add: messageText_conversation)
next
  fix x s
  assume "\<not> truthy (conversation b) \<and> extendedTextMessage b = Some x \<and> ext_text x = Some s"
  then show "messageText b = s" by (simp add: messageText_extended)
next
  assume "\<not> truthy (conversation b)
        \<and> (extendedTextMessage b = None \<or> (\<exists>x. extendedTextMessage b = Some x \<and> ext_text x = None))"
  then show "messageText b = []" using messageText_empty [of b] by blast
qed

text \<open>
  Claim C8 at a text message from \<open>15551234567@s.whatsapp.net\<close> with the
  conversation text \<open>JOIN\<close>.
\<close>

theorem forwarded_payload_witness:
  "posts (calls (handleIncomingMessage backend_down (online socket_ok)
      (text_message (Some ''15551234567@s.whatsapp.net'') ''JOIN'') ())) =
     [\<lparr>phone_number = ''15551234567'', message = ''JOIN'',
       message_id = Some ''3EB0A1'', timestamp = Some 1700000000\<rparr>]"
proof -
  let ?m = "text_message (Some ''15551234567@s.whatsapp.net'') ''JOIN''"
  let ?b = "\<lparr>conversation = Some ''JOIN'', extendedTextMessage = None\<rparr>"
  have b: "message_body ?m = Some ?b"
    by (simp add: text_message_def)
  have n: "normalize_sender ''15551234567@s.whatsapp.net'' = ''15551234567''"
    by (simp add: normalize_sender_def channel_suffix_def)
  have c: "conversation ?b = Some ''JOIN'' \<and> ''JOIN'' \<noteq> []" by simp
  from forwarded_payload [where st = "online socket_ok" and axios_post = backend_down and w = "()", OF b]
  have "posts (calls (handleIncomingMessage backend_down (online socket_ok) ?m ())) =
     (case remoteJid (key ?m) of
        None \<Rightarrow> []
      | Some jid \<Rightarrow>
          [\<lparr>phone_number = normalize_sender jid, message = messageText ?b,
            message_id = key_id (key ?m), timestamp = messageTimestamp ?m\<rparr>])"
    and "\<forall>s. conversation ?b = Some s \<and> s \<noteq> [] \<longrightarrow> messageText ?b = s"
    by blast+
  with c n show ?thesis by (simp add: text_message_def)
qed

lemma handle_sends_addressed:
  assumes "remoteJid (key m) = Some jid"
  shows "\<forall>(j, t)\<in>set (sock_sends (calls (handleIncomingMessage axios_post st m w))).
           j = to_jid (normalize_sender jid)"
proof (cases "message_body m")
  case None
  from handle_no_body [OF assms None, of axios_post st w] show ?thesis
    by (auto simp: calls_def split: if_splits)
next
  case (Some b)
  obtain r w1 where "axios_post \<lparr>phone_number = normalize_sender jid, message = messageText b,
           message_id = key_id (key m), timestamp = messageTimestamp m\<rparr> w = (r, w1)"
    by (cases "axios_post \<lparr>phone_number = normalize_sender jid, message = messageText b,
           message_id = key_id (key m), timestamp = messageTimestamp m\<rparr> w")
  from single_outbound_message [where st = st and axios_post = axios_post, OF assms Some this]
  show ?thesis by (auto split: sum.splits option.splits if_splits)
qed

text \<open>
  Claim C10: for a remoteJid made of digits followed by the channel suffix, stripping
  the suffix (line 71) and building the jid again (line 104) gives back the remoteJid,
  and every message that the handler hands to the socket for an inbound message from
  that remoteJid, the backend's reply or the error reply, is addressed to it.
\<close>

theorem jid_round_trip:
  assumes "\<forall>c\<in>set digits. isDigit c"
  shows "to_jid (normalize_sender (digits @ channel_suffix)) = digits @ channel_suffix
    \<and> (remoteJid (key m) = Some (digits @ channel_suffix) \<longrightarrow>
         (\<forall>(j, t)\<in>set (sock_sends (calls (handleIncomingMessage axios_post st m w))).
            j = digits @ channel_suffix))"
proof -
  from assms have "CHR ''@'' \<notin> set digits" by (rule digits_no_at)
  then have rt: "to_jid (normalize_sender (digits @ channel_suffix)) = digits @ channel_suffix"
    by (rule to_jid_normalize_sender)
  show ?thesis
  proof (intro conjI impI)
    show "to_jid (normalize_sender (digits @ channel_suffix)) = digits @ channel_suffix"
      by (rule rt)
  next
    assume "remoteJid (key m) = Some (digits @ channel_suffix)"
    from handle_sends_addressed [OF this, of axios_post st w] rt
    show "\<forall>(j, t)\<in>set (sock_sends (calls (handleIncomingMessage axios_post st m w))).
            j = digits @ channel_suffix"
      by simp
  qed
qed

text \<open>
  Claim C10 at the address \<open>15551234567@s.whatsapp.net\<close>.
\<close>

theorem jid_round_trip_witness:
  "list_all isDigit ''15551234567''
   \<and> to_jid (normalize_sender ''15551234567@s.whatsapp.net'') = ''15551234567@s.whatsapp.net''"
proof -
  have h: "\<forall>c\<in>set ''15551234567''. isDigit c" by (simp add: isDigit_def)
  from jid_round_trip [OF h, THEN conjunct1]
  have "to_jid (normalize_sender (''15551234567'' @ channel_suffix)) = ''15551234567'' @ channel_suffix" .
  with h show ?thesis by (simp add: channel_suffix_def)
qed

section \<open>The invariant of the loyalty engine\<close>

lemma upsert_inv:
  "customer_inv c \<Longrightarrow> store_inv store \<Longrightarrow> store_inv (upsert c store)"
  by (induction store) (auto simp: store_inv_def)

lemma store_get_inv:
  "store_inv store \<Longrightarrow> store_get store phone = Some c \<Longrightarrow> customer_inv c"
  by (auto simp: store_inv_def store_get_def list_all_iff find_Some_iff)

lemma store_getById_inv:
  "store_inv store \<Longrightarrow> store_getById store cid = Some c \<Longrightarrow> customer_inv c"
  by (auto simp: store_inv_def store_getById_def list_all_iff find_Some_iff)

lemma transition_inv:
  assumes "store_inv store"
  shows "store_inv (snd (transition now new_id sender cmd store))"
proof (cases cmd)
  case JOIN
  have "customer_inv \<lparr>customer_id = new_id, customer_phone = sender, name = [],
                   stamps = 1, rewards = 0, last_stamp_at = None, created_at = now\<rparr>"
    by (simp add: customer_inv_def)
  with assms JOIN show ?thesis
    by (auto simp: upsert_inv Let_def split: option.splits)
next
  case STATUS
  with assms show ?thesis by (auto split: option.splits)
next
  case REWARD
  show ?thesis
  proof (cases "store_get store sender")
    case None
    with assms REWARD show ?thesis by simp
  next
    case (Some c)
    with assms have "customer_inv c" by (auto dest: store_get_inv)
    then have "customer_inv (c\<lparr>rewards := rewards c + 1\<rparr>)"
      by (simp add: customer_inv_def)
    with assms REWARD Some show ?thesis by (simp add: upsert_inv Let_def)
  qed
next
  case (UPDATE_NAME n)
  show ?thesis
  proof (cases "store_get store sender")
    case None
    with assms UPDATE_NAME show ?thesis by simp
  next
    case (Some c)
    with assms have "customer_inv c" by (auto dest: store_get_inv)
    then have "customer_inv (c\<lparr>name := n\<rparr>)"
      by (simp add: customer_inv_def)
    with assms UPDATE_NAME Some show ?thesis by (simp add: upsert_inv Let_def)
  qed
next
  case HELP
  with assms show ?thesis by simp
next
  case (STAMP cid)
  show ?thesis
  proof (cases "store_getById store cid")
    case None
    with assms STAMP show ?thesis by simp
  next
    case (Some c)
    with assms have "customer_inv c" by (auto dest: store_getById_inv)
    then have "stamps c < 10 \<Longrightarrow> customer_inv (c\<lparr>stamps := stamps c + 1, last_stamp_at := Some now\<rparr>)"
      by (simp add: customer_inv_def)
    with assms STAMP Some show ?thesis by (simp add: upsert_inv Let_def)
  qed
next
  case (REDEEM cid)
  show ?thesis
  proof (cases "store_getById store cid")
    case None
    with assms REDEEM show ?thesis by simp
  next
    case (Some c)
    with assms have "customer_inv c" by (auto dest: store_getById_inv)
    then have "1 \<le> rewards c \<Longrightarrow> customer_inv (c\<lparr>rewards := rewards c - 1, stamps := 0\<rparr>)"
      by (simp add: customer_inv_def)
    with assms REDEEM Some show ?thesis by (simp add: upsert_inv Let_def)
  qed
next
  case (UNKNOWN t)
  with assms show ?thesis by simp
qed

lemma apply_operation_inv:
  "store_inv store \<Longrightarrow> store_inv (snd (apply_operation op store))"
  by (simp add: apply_operation_def transition_inv split: option.splits)

text \<open>
  Claim C3: a store in which every customer record has between 0 and 10 stamps and no
  negative reward count is still such a store after any sequence of \<open>JOIN\<close>,
  \<open>STATUS\<close>, \<open>REWARD\<close>, \<open>UPDATE_NAME\<close>, \<open>HELP\<close>, \<open>STAMP\<close> and \<open>REDEEM\<close> messages,
  from any senders, at any times and under any staff lists; the empty store is one.
\<close>

theorem stamps_rewards_invariant:
  "store_inv store \<Longrightarrow> store_inv (run_operations ops store)"
proof (induction ops arbitrary: store)
  case Nil
  then show ?case by simp
next
  case (Cons op ops)
  from Cons.prems have "store_inv (snd (apply_operation op store))"
    by (rule apply_operation_inv)
  then have "store_inv (run_operations ops (snd (apply_operation op store)))"
    by (rule Cons.IH)
  then show ?case by simp
qed

text \<open>
  Claim C3 from the empty store: a customer joins and a staff member stamps the card
  six minutes later; the record then holds two stamps and no reward.
\<close>

theorem stamps_rewards_invariant_witness:
  "store_inv []
   \<and> run_operations
       [\<lparr>op_sender = ''15551234567'', op_command = JOIN, op_now = 1700000000,
         op_new_id = ''C1234'', op_staff = [''15550000001'']\<rparr>,
        \<lparr>op_sender = ''15550000001'', op_command = STAMP ''C1234'', op_now = 1700000360,
         op_new_id = ''C1235'', op_staff = [''15550000001'']\<rparr>] [] =
       [\<lparr>customer_id = ''C1234'', customer_phone = ''15551234567'', name = [],
         stamps = 2, rewards = 0, last_stamp_at = Some 1700000360, created_at = 1700000000\<rparr>]
   \<and> store_inv
       [\<lparr>customer_id = ''C1234'', customer_phone = ''15551234567'', name = [],
         stamps = 2, rewards = 0, last_stamp_at = Some 1700000360, created_at = 1700000000\<rparr>]"
proof -
  let ?ops = "[\<lparr>op_sender = ''15551234567'', op_command = JOIN, op_now = 1700000000,
         op_new_id = ''C1234'', op_staff = [''15550000001'']\<rparr>,
        \<lparr>op_sender = ''15550000001'', op_command = STAMP ''C1234'', op_now = 1700000360,
         op_new_id = ''C1235'', op_staff = [''15550000001'']\<rparr>]"
  have e: "store_inv []" by (simp add: store_inv_def)
  have r: "run_operations ?ops [] =
       [\<lparr>customer_id = ''C1234'', customer_phone = ''15551234567'', name = [],
         stamps = 2, rewards = 0, last_stamp_at = Some 1700000360, created_at = 1700000000\<rparr>]"
    by (simp add: apply_operation_def store_get_def store_getById_def cooldown_def Let_def)
  from stamps_rewards_invariant [OF e, of ?ops] e r show ?thesis by simp
qed

end
